theory Spec2Isabelle
  imports Complex_Main "HOL-Library.Log_Nat"
begin

section \<open>Python values\<close>

text \<open>
  The bot talks JSON-RPC: every response is a decoded JSON document, and the helpers
  read it with \<^verbatim>\<open>dict.get\<close>, \<^verbatim>\<open>isinstance\<close>, truth tests and iteration.
  A document is a \<open>json\<close> value; a dictionary keeps its items as an association list
  that is read with \<open>map_of\<close>. A JSON number with a fraction is a finite double and is
  kept as the rational it denotes.
\<close>

datatype json =
    JNull
  | JBool bool
  | JInt int
  | JFloat rat
  | JStr string
  | JList "json list"
  | JDict "(string \<times> json) list"

text \<open>The exceptions the modelled code can raise, by class.\<close>

datatype py_exn =
    KeyError
  | IndexError
  | TypeError
  | AttributeError
  | ValueError
  | OverflowError
  | Exception string

text \<open>Python's truth test: \<^verbatim>\<open>if v\<close>, \<^verbatim>\<open>not v\<close>, \<^verbatim>\<open>a or b\<close>.\<close>

fun truthy :: "json \<Rightarrow> bool" where
  "truthy JNull = False"
| "truthy (JBool b) = b"
| "truthy (JInt i) = (i \<noteq> 0)"
| "truthy (JFloat r) = (r \<noteq> 0)"
| "truthy (JStr s) = (s \<noteq> [])"
| "truthy (JList xs) = (xs \<noteq> [])"
| "truthy (JDict kvs) = (kvs \<noteq> [])"

text \<open>\<^verbatim>\<open>isinstance(v, dict)\<close>.\<close>

fun is_dict :: "json \<Rightarrow> bool" where
  "is_dict (JDict kvs) = True"
| "is_dict v = False"

text \<open>
  \<^verbatim>\<open>v.get(key, default)\<close>: only a dictionary has the method, any other value raises
  AttributeError. \<^verbatim>\<open>v.get(key)\<close> is \<open>py_get v key JNull\<close>.
\<close>

definition dict_get :: "(string \<times> json) list \<Rightarrow> string \<Rightarrow> json \<Rightarrow> json" where
  "dict_get kvs key dflt = (case map_of kvs key of Some v \<Rightarrow> v | None \<Rightarrow> dflt)"

fun py_get :: "json \<Rightarrow> string \<Rightarrow> json \<Rightarrow> py_exn + json" where
  "py_get (JDict kvs) key dflt = Inr (dict_get kvs key dflt)"
| "py_get v key dflt = Inl AttributeError"

text \<open>\<^verbatim>\<open>key in d\<close> for a dictionary \<open>d\<close>.\<close>

definition has_key :: "(string \<times> json) list \<Rightarrow> string \<Rightarrow> bool" where
  "has_key kvs key = (map_of kvs key \<noteq> None)"

text \<open>
  \<^verbatim>\<open>for x in v\<close>: a list yields its items, a string its characters, a dictionary its
  keys; None, a boolean or a number is not iterable (TypeError).
\<close>

fun py_iter :: "json \<Rightarrow> py_exn + json list" where
  "py_iter (JList xs) = Inr xs"
| "py_iter (JStr s) = Inr (map (\<lambda>c. JStr [c]) s)"
| "py_iter (JDict kvs) = Inr (map (\<lambda>kv. JStr (fst kv)) kvs)"
| "py_iter v = Inl TypeError"

text \<open>
  Sequencing of steps that may raise: the first exception ends the computation, as it
  does where the source has no handler around the steps.
\<close>

definition py_bind :: "py_exn + 'a \<Rightarrow> ('a \<Rightarrow> py_exn + 'b) \<Rightarrow> py_exn + 'b" where
  "py_bind m f = (case m of Inl e \<Rightarrow> Inl e | Inr v \<Rightarrow> f v)"

section \<open>Python numbers\<close>

text \<open>
  A Python float is an IEEE 754 double. A finite one is the rational it denotes (the two
  zeros are one value here); the other values are the two infinities and NaN.
\<close>

datatype pyfloat =
    Finite rat
  | PosInf
  | NegInf
  | NaN

text \<open>The power of two with an integer exponent.\<close>

definition pow2 :: "int \<Rightarrow> rat" where
  "pow2 k = (if 0 \<le> k then 2 ^ nat k else 1 / 2 ^ nat (- k))"

text \<open>The nearest integer, a tie going to the even one.\<close>

definition round_half_even :: "rat \<Rightarrow> int" where
  "round_half_even x =
     (let f = \<lfloor>x\<rfloor>; d = x - of_int f
      in if d < 1 / 2 then f else if 1 / 2 < d then f + 1 else if even f then f else f + 1)"

text \<open>
  The binary exponent of a positive rational \<open>x\<close>, the \<open>e\<close> with
  \<open>2 ^ e \<le> x < 2 ^ (e + 1)\<close>: the difference of the bit lengths of numerator and
  denominator, or one less.
\<close>

definition binary_exponent :: "rat \<Rightarrow> int" where
  "binary_exponent x =
     (let k = bitlen (fst (quotient_of x)) - bitlen (snd (quotient_of x))
      in if pow2 k \<le> x then k else k - 1)"

text \<open>
  The double nearest to a rational, which is what every arithmetic operation on floats
  and every conversion to a float returns: 53 significant bits, so the doubles around
  \<open>x\<close> are \<open>2 ^ (e - 52)\<close> apart for the binary exponent \<open>e\<close> of \<open>\<bar>x\<bar>\<close>; below
  \<open>2 ^ - 1022\<close> the spacing stays \<open>2 ^ - 1074\<close>, so that a small value rounds to 0; a
  tie goes to the even significand; and what rounds to \<open>2 ^ 1024\<close> or more is infinite.
\<close>

definition round_double :: "rat \<Rightarrow> pyfloat" where
  "round_double x =
     (if x = 0 then Finite 0
      else let u = max (binary_exponent \<bar>x\<bar>) (- 1022) - 52;
               v = of_int (round_half_even (\<bar>x\<bar> / pow2 u)) * pow2 u
           in if pow2 1024 \<le> v then (if 0 < x then PosInf else NegInf)
              else Finite (if 0 < x then v else - v))"

text \<open>
  A number as Python's arithmetic takes it from a JSON value: an integer of any size (a
  boolean counts as 0 or 1) or a float. Anything else is no number.
\<close>

datatype pynum =
    PyInt int
  | PyFloat pyfloat

fun num_of :: "json \<Rightarrow> pynum option" where
  "num_of (JInt i) = Some (PyInt i)"
| "num_of (JBool b) = Some (PyInt (if b then 1 else 0))"
| "num_of (JFloat r) = Some (PyFloat (Finite r))"
| "num_of v = None"

text \<open>
  The conversion of the integer operand when the other operand is a float: the nearest
  double, OverflowError when that is not finite.
\<close>

definition int_to_float :: "int \<Rightarrow> py_exn + pyfloat" where
  "int_to_float i =
     (case round_double (of_int i) of
        Finite r \<Rightarrow> Inr (Finite r)
      | _ \<Rightarrow> Inl OverflowError)"

text \<open>\<^verbatim>\<open>a - b\<close> on floats: the difference rounded, and the rules of the infinities.\<close>

fun float_sub :: "pyfloat \<Rightarrow> pyfloat \<Rightarrow> pyfloat" where
  "float_sub (Finite a) (Finite b) = round_double (a - b)"
| "float_sub NaN y = NaN"
| "float_sub x NaN = NaN"
| "float_sub PosInf PosInf = NaN"
| "float_sub NegInf NegInf = NaN"
| "float_sub PosInf y = PosInf"
| "float_sub NegInf y = NegInf"
| "float_sub (Finite a) PosInf = NegInf"
| "float_sub (Finite a) NegInf = PosInf"

text \<open>
  \<^verbatim>\<open>a - b\<close> on numbers: two integers give the exact integer, a float on either side
  gives a float after the integer operand is converted.
\<close>

fun num_sub :: "pynum \<Rightarrow> pynum \<Rightarrow> py_exn + pynum" where
  "num_sub (PyInt a) (PyInt b) = Inr (PyInt (a - b))"
| "num_sub (PyFloat x) (PyFloat y) = Inr (PyFloat (float_sub x y))"
| "num_sub (PyInt a) (PyFloat y) =
     (case int_to_float a of Inl e \<Rightarrow> Inl e | Inr x \<Rightarrow> Inr (PyFloat (float_sub x y)))"
| "num_sub (PyFloat x) (PyInt b) =
     (case int_to_float b of Inl e \<Rightarrow> Inl e | Inr y \<Rightarrow> Inr (PyFloat (float_sub x y)))"

text \<open>\<^verbatim>\<open>post - pre\<close> on two JSON values; an operand that is no number raises TypeError.\<close>

definition py_sub :: "json \<Rightarrow> json \<Rightarrow> py_exn + pynum" where
  "py_sub a b =
     (case num_of a of
        None \<Rightarrow> Inl TypeError
      | Some x \<Rightarrow> (case num_of b of None \<Rightarrow> Inl TypeError | Some y \<Rightarrow> num_sub x y))"

text \<open>
  \<^verbatim>\<open>x / 1_000_000_000\<close>, Python's true division. A float is divided as a double, the
  quotient rounded (a tiny one to 0). An integer gives the double nearest to the exact
  quotient, and OverflowError when that is not finite.
\<close>

fun float_div_billion :: "pyfloat \<Rightarrow> pyfloat" where
  "float_div_billion (Finite a) = round_double (a / 1000000000)"
| "float_div_billion x = x"

fun num_div_billion :: "pynum \<Rightarrow> py_exn + pyfloat" where
  "num_div_billion (PyInt i) =
     (case round_double (of_int i / 1000000000) of
        Finite r \<Rightarrow> Inr (Finite r)
      | _ \<Rightarrow> Inl OverflowError)"
| "num_div_billion (PyFloat x) = Inr (float_div_billion x)"

text \<open>The same division on a JSON value; a value that is no number raises TypeError.\<close>

definition true_div_billion :: "json \<Rightarrow> py_exn + pyfloat" where
  "true_div_billion v =
     (case num_of v of None \<Rightarrow> Inl TypeError | Some x \<Rightarrow> num_div_billion x)"

section \<open>Signature descriptors\<close>

text \<open>
  One entry of a \<^verbatim>\<open>getSignaturesForAddress\<close> page: the signature, the slot and the
  confirmation time, which the provider may leave out (null).
\<close>

record sig_info =
  signature :: string
  slot :: int
  blockTime :: "int option"

section \<open>Fetching one transaction with retries (solana\_helpers.py)\<close>

definition MAX_RETRIES :: nat where
  "MAX_RETRIES = 5"

definition INITIAL_DELAY_SECONDS :: nat where
  "INITIAL_DELAY_SECONDS = 1"

text \<open>
  \<^verbatim>\<open>_fetch_transaction_with_retry\<close>. The argument \<open>get_transaction\<close> gives the outcome
  of \<^verbatim>\<open>client.get_transaction(signature)\<close> at each attempt: the response, or the
  exception it raised. The result is the value returned (\<open>None\<close> for Python's None) and
  the delays slept, in order.
\<close>

function fetch_retry_loop ::
  "(nat \<Rightarrow> py_exn + 'a) \<Rightarrow> nat \<Rightarrow> nat \<Rightarrow> nat list \<Rightarrow> 'a option \<times> nat list" where
  "fetch_retry_loop get_transaction attempt delay sleeps =
     (if attempt < MAX_RETRIES then
        (case get_transaction attempt of
           Inr response \<Rightarrow> (Some response, sleeps)
         | Inl e \<Rightarrow>
             if attempt < MAX_RETRIES - 1
             then fetch_retry_loop get_transaction (attempt + 1) (delay * 2) (sleeps @ [delay])
             else fetch_retry_loop get_transaction (attempt + 1) delay sleeps)
      else (None, sleeps))"
  by pat_completeness auto
termination
  by (relation "measure (\<lambda>(g, attempt, delay, sleeps). MAX_RETRIES - attempt)") auto

declare fetch_retry_loop.simps [simp del]

text \<open>
  The client as the batch sees it: the outcome of the \<open>k\<close>-th attempt of task \<open>i\<close>
  asking for signature \<open>s\<close> is \<open>client i s k\<close>, the dictionary of the JSON-RPC response
  or the exception raised.
\<close>

type_synonym tx_client = "nat \<Rightarrow> string \<Rightarrow> nat \<Rightarrow> py_exn + (string \<times> json) list"

definition fetch_transaction_with_retry ::
  "(string \<Rightarrow> nat \<Rightarrow> py_exn + 'a) \<Rightarrow> sig_info \<Rightarrow> 'a option \<times> nat list" where
  "fetch_transaction_with_retry client sig =
     fetch_retry_loop (client (signature sig)) 0 INITIAL_DELAY_SECONDS []"

text \<open>
  \<^verbatim>\<open>tx_tasks = [_fetch_transaction_with_retry(client, sig, sem) for sig in signatures]\<close>
  followed by \<^verbatim>\<open>asyncio.gather(*tx_tasks)\<close>: one result per task, in task order.
\<close>

definition gather_transactions ::
  "tx_client \<Rightarrow> sig_info list \<Rightarrow> (string \<times> json) list option list" where
  "gather_transactions client signatures =
     map (\<lambda>(i, sig). fst (fetch_transaction_with_retry (client i) sig)) (enumerate 0 signatures)"

text \<open>\<^verbatim>\<open>zip(signatures, tx_responses)\<close>, the pairing the parse loop walks.\<close>

definition fetch_all ::
  "tx_client \<Rightarrow> sig_info list \<Rightarrow> (sig_info \<times> (string \<times> json) list option) list" where
  "fetch_all client signatures = zip signatures (gather_transactions client signatures)"


text \<open>
  A batch of ten descriptors whose third, sixth and eighth fetch never succeed, the
  scenario of the specification; the other seven answer at the first attempt.
\<close>

definition mk_sig :: "string \<Rightarrow> sig_info" where
  "mk_sig s = \<lparr>signature = s, slot = 100, blockTime = None\<rparr>"

definition sigs10 :: "sig_info list" where
  "sigs10 = map mk_sig
     [''s0'', ''s1'', ''s2'', ''s3'', ''s4'', ''s5'', ''s6'', ''s7'', ''s8'', ''s9'']"

definition client10 :: tx_client where
  "client10 i s k =
     (if i = 2 \<or> i = 5 \<or> i = 7 then Inl (Exception ''timeout'')
      else Inr [(''result'', JStr s)])"

section \<open>The RPC transport (solana\_client.py)\<close>

text \<open>
  The JSON-RPC envelope of one POST; the \<^verbatim>\<open>jsonrpc\<close> member is the constant "2.0".
\<close>

record payload =
  p_id :: nat
  p_method :: string
  p_params :: json

text \<open>
  What one \<^verbatim>\<open>session.post\<close> comes back with: an exception raised by the connection
  (refused, reset, timed out), or a response with its HTTP status and what
  \<^verbatim>\<open>response.json()\<close> gives when it is read (the decoded body, or the exception of a
  body that does not decode).
\<close>

datatype http_reply =
    Refused py_exn
  | Response nat "py_exn + json"

text \<open>
  The effects of a call that a caller can observe besides its result: taking and giving
  back a slot of \<^verbatim>\<open>self.semaphore\<close>, each POST, each \<^verbatim>\<open>asyncio.sleep\<close> in seconds.
\<close>

datatype event =
    Acquire
  | Release
  | Post payload
  | Sleep nat

record client_state =
  request_id :: nat
  transaction_cache :: "string \<Rightarrow> json option"

text \<open>
  \<^verbatim>\<open>cache_key = f"{method}:{ujson.dumps(params)}"\<close>; the serialiser \<open>dumps\<close> is the
  library's and is a parameter.
\<close>

definition cache_key :: "(json \<Rightarrow> string) \<Rightarrow> string \<Rightarrow> json \<Rightarrow> string" where
  "cache_key dumps method params = method @ '':'' @ dumps params"

definition auth_failed :: py_exn where
  "auth_failed = Exception ''Authentication failed. Check your RPC URL and API key.''"

text \<open>\<^verbatim>\<open>response.raise_for_status()\<close> raises for every status from 400 on.\<close>

definition client_response_error :: py_exn where
  "client_response_error = Exception ''ClientResponseError''"

text \<open>
  The loop \<^verbatim>\<open>for attempt in range(retry_count)\<close> of \<^verbatim>\<open>_make_request\<close>, entered at
  \<open>attempt\<close>. Everything raised inside the \<^verbatim>\<open>try\<close> lands in
  \<^verbatim>\<open>except Exception\<close>: it is raised again at the last attempt only, and followed by a
  sleep of \<open>2 ^ attempt\<close> seconds and the next attempt otherwise. The result is what the
  call returns or raises, the new state, and the events in order.
\<close>

function request_loop ::
  "(payload \<Rightarrow> http_reply) \<Rightarrow> string \<Rightarrow> string \<Rightarrow> json \<Rightarrow> nat \<Rightarrow> nat \<Rightarrow>
   client_state \<Rightarrow> event list \<Rightarrow> (py_exn + json) \<times> client_state \<times> event list" where
  "request_loop post key method params retry_count attempt st tr =
     (if attempt < retry_count then
        (let pl = \<lparr>p_id = request_id st, p_method = method, p_params = params\<rparr>;
             st1 = st\<lparr>request_id := request_id st + 1\<rparr>;
             tr1 = tr @ [Post pl];
             raised = (\<lambda>e.
               if attempt = retry_count - 1 then (Inl e, st1, tr1)
               else request_loop post key method params retry_count (attempt + 1) st1
                      (tr1 @ [Sleep (2 ^ attempt)]))
         in (case post pl of
               Refused e \<Rightarrow> raised e
             | Response status body \<Rightarrow>
                 if status = 429 then
                   request_loop post key method params retry_count (attempt + 1) st1
                     (tr1 @ [Sleep (2 ^ attempt)])
                 else if status = 403 then raised auth_failed
                 else if 400 \<le> status then raised client_response_error
                 else (case body of
                         Inl e \<Rightarrow> raised e
                       | Inr result \<Rightarrow>
                           (Inr result,
                            (if method = ''getTransaction''
                             then st1\<lparr>transaction_cache := (transaction_cache st1)(key \<mapsto> result)\<rparr>
                             else st1),
                            tr1))))
      else (Inr (JDict [(''error'', JStr ''Max retries reached'')]), st, tr))"
  by pat_completeness auto
termination
  by (relation "measure (\<lambda>(post, key, method, params, retry_count, attempt, st, tr).
        retry_count - attempt)") auto

declare request_loop.simps [simp del]

text \<open>
  \<^verbatim>\<open>_make_request\<close>: the whole body runs inside \<^verbatim>\<open>async with self.semaphore\<close>, the
  cache lookup included.
\<close>

definition make_request ::
  "(json \<Rightarrow> string) \<Rightarrow> (payload \<Rightarrow> http_reply) \<Rightarrow> string \<Rightarrow> json \<Rightarrow> nat \<Rightarrow>
   client_state \<Rightarrow> (py_exn + json) \<times> client_state \<times> event list" where
  "make_request dumps post method params retry_count st =
     (let key = cache_key dumps method params in
      case (if method = ''getTransaction'' then transaction_cache st key else None) of
        Some cached \<Rightarrow> (Inr cached, st, [Acquire, Release])
      | None \<Rightarrow>
          (case request_loop post key method params retry_count 0 st [Acquire] of
             (r, st', tr) \<Rightarrow> (r, st', tr @ [Release])))"

text \<open>\<^verbatim>\<open>get_transaction(signature, encoding="jsonParsed")\<close>, with the default retry count 3.\<close>

definition get_transaction_params :: "string \<Rightarrow> string \<Rightarrow> json" where
  "get_transaction_params sig encoding =
     JList [JStr sig,
            JDict [(''encoding'', JStr encoding), (''maxSupportedTransactionVersion'', JInt 0)]]"

definition get_transaction ::
  "(json \<Rightarrow> string) \<Rightarrow> (payload \<Rightarrow> http_reply) \<Rightarrow> string \<Rightarrow> client_state \<Rightarrow>
   (py_exn + json) \<times> client_state \<times> event list" where
  "get_transaction dumps post sig st =
     make_request dumps post ''getTransaction'' (get_transaction_params sig ''jsonParsed'') 3 st"

text \<open>The events of a trace that are POSTs, and those that are sleeps.\<close>

fun is_post :: "event \<Rightarrow> bool" where
  "is_post (Post pl) = True"
| "is_post e = False"

fun sleeps_of :: "event list \<Rightarrow> nat list" where
  "sleeps_of [] = []"
| "sleeps_of (Sleep n # es) = n # sleeps_of es"
| "sleeps_of (e # es) = sleeps_of es"

text \<open>
  A provider that answers every POST with status 403, one that answers 403 to the first
  request only, a fresh client, and a client that holds one transaction in its cache.
  \<open>dumps0\<close> stands for the serialiser in the examples: it writes the first parameter
  when that is a string and nothing otherwise.
\<close>

definition always_403 :: "payload \<Rightarrow> http_reply" where
  "always_403 pl = Response 403 (Inr JNull)"

definition once_403 :: "payload \<Rightarrow> http_reply" where
  "once_403 pl =
     (if p_id pl = 1 then Response 403 (Inr JNull)
      else Response 200 (Inr (JDict [(''result'', JStr ''ok'')])))"

definition fresh_client :: client_state where
  "fresh_client = \<lparr>request_id = 1, transaction_cache = Map.empty\<rparr>"

definition dumps0 :: "json \<Rightarrow> string" where
  "dumps0 v = (case v of JList (JStr s # rest) \<Rightarrow> s | _ \<Rightarrow> '''')"

definition cached_client :: client_state where
  "cached_client =
     \<lparr>request_id = 7,
      transaction_cache =
        Map.empty(cache_key dumps0 ''getTransaction'' (get_transaction_params ''fake_sig'' ''jsonParsed'')
                  \<mapsto> JDict [(''result'', JStr ''cached_data'')])\<rparr>"

section \<open>The transaction normalizer (solana\_helpers.py)\<close>

text \<open>
  The amount of a record: the float that the division of the lamports gave, or a value
  taken from the instruction as it is (or the text N/A).
\<close>

datatype amount_value =
    In_sol pyfloat
  | As_given json

text \<open>One row of the scan's output, with the keys of the dictionary the source builds.\<close>

record transfer_record =
  rec_type :: json
  wallet_1 :: json
  wallet_2 :: json
  amount :: amount_value
  authority :: json
  timestamp :: string
  tx_signature :: string
  block_number :: json
  link :: string

text \<open>
  The three-tier amount of a transfer: lamports in SOL, else the UI amount of a token
  transfer, else the raw amount, else the text N/A. \<open>info\<close> is a dictionary here: the
  \<^verbatim>\<open>info.get\<close> calls before have raised for anything else.
\<close>

definition transfer_amount :: "(string \<times> json) list \<Rightarrow> py_exn + amount_value" where
  "transfer_amount info =
     (if has_key info ''lamports'' then
        py_bind (true_div_billion (dict_get info ''lamports'' (JInt 0))) (\<lambda>q. Inr (In_sol q))
      else if has_key info ''tokenAmount'' then
        py_bind (py_get (dict_get info ''tokenAmount'' (JDict [])) ''uiAmountString'' JNull)
          (\<lambda>ui_string.
             if truthy ui_string then Inr (As_given ui_string)
             else py_bind (py_get (dict_get info ''tokenAmount'' (JDict [])) ''uiAmount'' JNull)
                    (\<lambda>ui_amount. Inr (As_given ui_amount)))
      else if has_key info ''amount'' then Inr (As_given (dict_get info ''amount'' JNull))
      else Inr (As_given (JStr ''N/A'')))"

text \<open>\<^verbatim>\<open>tx_type not in ['transfer', 'transferChecked']\<close>, negated.\<close>

definition is_transfer_type :: "json \<Rightarrow> bool" where
  "is_transfer_type tx_type = (tx_type = JStr ''transfer'' \<or> tx_type = JStr ''transferChecked'')"

text \<open>
  The body of \<^verbatim>\<open>for instruction in instructions\<close>: \<open>Inr None\<close> is a \<^verbatim>\<open>continue\<close>,
  \<open>Inr (Some r)\<close> an appended record, \<open>Inl e\<close> an exception that leaves the function.
\<close>

definition parse_instruction ::
  "string \<Rightarrow> string \<Rightarrow> json \<Rightarrow> json \<Rightarrow> py_exn + transfer_record option" where
  "parse_instruction ts sig slt instruction =
     (if \<not> is_dict instruction then Inr None
      else py_bind (py_get instruction ''parsed'' (JDict [])) (\<lambda>parsed_info.
        if \<not> is_dict parsed_info \<or> \<not> truthy parsed_info then Inr None
        else py_bind (py_get parsed_info ''type'' JNull) (\<lambda>tx_type.
          if \<not> is_transfer_type tx_type then Inr None
          else py_bind (py_get parsed_info ''info'' (JDict [])) (\<lambda>info.
            py_bind (py_get info ''source'' JNull) (\<lambda>w1.
            py_bind (py_get info ''destination'' JNull) (\<lambda>w2.
            py_bind (py_get info ''authority'' JNull) (\<lambda>auth.
              if \<not> truthy w1 \<or> \<not> truthy w2 then Inr None
              else py_bind (case info of JDict kvs \<Rightarrow> transfer_amount kvs | _ \<Rightarrow> Inl TypeError)
                (\<lambda>amt. Inr (Some
                   \<lparr>rec_type = tx_type, wallet_1 = w1, wallet_2 = w2, amount = amt,
                    authority = auth, timestamp = ts, tx_signature = sig,
                    block_number = slt, link = ''https://solscan.io/tx/'' @ sig\<rparr>)))))))))"

fun parse_instructions ::
  "string \<Rightarrow> string \<Rightarrow> json \<Rightarrow> json list \<Rightarrow> transfer_record list \<Rightarrow>
   py_exn + transfer_record list" where
  "parse_instructions ts sig slt [] parsed_data = Inr parsed_data"
| "parse_instructions ts sig slt (instruction # rest) parsed_data =
     (case parse_instruction ts sig slt instruction of
        Inl e \<Rightarrow> Inl e
      | Inr None \<Rightarrow> parse_instructions ts sig slt rest parsed_data
      | Inr (Some r) \<Rightarrow> parse_instructions ts sig slt rest (parsed_data @ [r]))"

text \<open>
  \<^verbatim>\<open>_parse_transaction_details(tx_response, sig_info)\<close>. \<open>tx_response\<close> is what the
  fetch gave: None, or the dictionary of the JSON-RPC response. The conversion
  \<^verbatim>\<open>datetime.fromtimestamp(block_time).strftime('%Y-%m-%d %H:%M:%S')\<close> is the standard
  library's: it depends on the host's time zone and raises for a value that is not a
  number or is out of its range, so it is the parameter \<open>strftime\<close>.
\<close>

definition parse_transaction_details ::
  "(json \<Rightarrow> py_exn + string) \<Rightarrow> (string \<times> json) list option \<Rightarrow> sig_info \<Rightarrow>
   py_exn + transfer_record list" where
  "parse_transaction_details strftime tx_response sig =
     (case tx_response of
        None \<Rightarrow> Inr []
      | Some resp \<Rightarrow>
          if resp = [] \<or> \<not> has_key resp ''result'' \<or> \<not> truthy (dict_get resp ''result'' JNull)
          then Inr []
          else
            (let tx_result = dict_get resp ''result'' JNull in
             py_bind (py_get tx_result ''blockTime'' JNull) (\<lambda>block_time.
             py_bind (if truthy block_time then strftime block_time else Inr '''') (\<lambda>ts.
             py_bind (py_get tx_result ''slot'' (JStr '''')) (\<lambda>slt.
             py_bind (py_get tx_result ''transaction'' JNull) (\<lambda>transaction_field.
               if \<not> is_dict transaction_field then Inr []
               else py_bind (py_get transaction_field ''message'' (JDict [])) (\<lambda>message.
                 if \<not> is_dict message then Inr []
                 else py_bind (py_get message ''instructions'' (JList [])) (\<lambda>instructions.
                   py_bind (py_iter instructions) (\<lambda>instrs.
                     parse_instructions ts (signature sig) slt instrs [])))))))))"

text \<open>
  The type an instruction declares, \<^verbatim>\<open>instruction['parsed']['type']\<close>, where the
  instruction and its \<^verbatim>\<open>parsed\<close> member are dictionaries.
\<close>

definition declared_type :: "json \<Rightarrow> json option" where
  "declared_type instruction =
     (case instruction of
        JDict kvs \<Rightarrow> (case map_of kvs ''parsed'' of Some (JDict p) \<Rightarrow> map_of p ''type'' | _ \<Rightarrow> None)
      | _ \<Rightarrow> None)"

text \<open>
  Example inputs of the normalizer: the descriptor and the response of the repository's
  test with a third instruction that has no destination, a response whose transaction
  member is a string, one with a single instruction of another type, and one whose
  instructions member is null. \<open>sample_strftime\<close> stands for the library's conversion in
  the examples: one text for every number, TypeError for the rest.
\<close>

definition sample_strftime :: "json \<Rightarrow> py_exn + string" where
  "sample_strftime v =
     (case v of
        JInt i \<Rightarrow> Inr ''2023-01-01 00:00:00''
      | JFloat r \<Rightarrow> Inr ''2023-01-01 00:00:00''
      | JBool b \<Rightarrow> Inr ''1970-01-01 00:00:00''
      | _ \<Rightarrow> Inl TypeError)"

definition sample_sig_info :: sig_info where
  "sample_sig_info = \<lparr>signature = ''dummy_sig_123'', slot = 12345678, blockTime = Some 1672531200\<rparr>"

definition sample_instructions :: "json list" where
  "sample_instructions =
     [JDict [(''parsed'', JDict [(''type'', JStr ''transferChecked''),
                                 (''info'', JDict [(''source'', JStr ''SourceWallet''),
                                                   (''destination'', JStr ''DestinationWallet''),
                                                   (''authority'', JStr ''AuthorityWallet''),
                                                   (''tokenAmount'',
                                                    JDict [(''uiAmountString'', JStr ''123.45'')])])]),
             (''program'', JStr ''spl-token'')],
      JDict [(''parsed'', JDict [(''type'', JStr ''unsupported_type''), (''info'', JDict [])])],
      JDict [(''parsed'', JDict [(''type'', JStr ''transfer''),
                                 (''info'', JDict [(''source'', JStr ''SourceWallet''),
                                                   (''lamports'', JInt 5000)])])]]"

definition response_with :: "json \<Rightarrow> (string \<times> json) list" where
  "response_with transaction_field =
     [(''jsonrpc'', JStr ''2.0''),
      (''result'', JDict [(''blockTime'', JInt 1672531200), (''slot'', JInt 12345678),
                          (''transaction'', transaction_field)]),
      (''id'', JInt 1)]"

definition sample_tx_response :: "(string \<times> json) list" where
  "sample_tx_response =
     response_with (JDict [(''message'', JDict [(''instructions'', JList sample_instructions)])])"

definition other_type_response :: "(string \<times> json) list" where
  "other_type_response =
     response_with (JDict [(''message'',
        JDict [(''instructions'', JList [sample_instructions ! 1])])])"

definition null_instructions_response :: "(string \<times> json) list" where
  "null_instructions_response =
     response_with (JDict [(''message'', JDict [(''instructions'', JNull)])])"

text \<open>
  A transfer instruction whose \<^verbatim>\<open>info\<close> member is null, so that it has neither a source
  nor a destination; the response of the test with that instruction after its first one;
  and the response with the first instruction alone.
\<close>

definition null_info_instruction :: json where
  "null_info_instruction =
     JDict [(''parsed'', JDict [(''type'', JStr ''transfer''), (''info'', JNull)])]"

definition null_info_response :: "(string \<times> json) list" where
  "null_info_response =
     response_with (JDict [(''message'',
        JDict [(''instructions'', JList [sample_instructions ! 0, null_info_instruction])])])"

definition first_transfer_response :: "(string \<times> json) list" where
  "first_transfer_response =
     response_with (JDict [(''message'',
        JDict [(''instructions'', JList [sample_instructions ! 0])])])"

section \<open>Signature discovery (solana\_helpers.py)\<close>

text \<open>
  What \<^verbatim>\<open>client.get_signatures_for_address\<close> returns, as far as the scans read it:
  whether the dictionary has the key \<^verbatim>\<open>error\<close>, and its \<^verbatim>\<open>result\<close> (None when the
  key is absent or null).
\<close>

record sig_response =
  resp_error :: bool
  resp_result :: "sig_info list option"

text \<open>
  The client as a scan sees it: \<open>client limit before\<close> is the outcome of
  \<^verbatim>\<open>client.get_signatures_for_address(address, limit=limit, before=before)\<close>, a response
  or the exception raised.
\<close>

type_synonym sig_client = "int option \<Rightarrow> string option \<Rightarrow> py_exn + sig_response"

definition batch_of :: "sig_response \<Rightarrow> sig_info list" where
  "batch_of response = (case resp_result response of Some batch \<Rightarrow> batch | None \<Rightarrow> [])"

text \<open>\<^verbatim>\<open>"error" in response or not response.get("result")\<close>.\<close>

definition page_unusable :: "sig_response \<Rightarrow> bool" where
  "page_unusable response = (resp_error response \<or> batch_of response = [])"

text \<open>\<^verbatim>\<open>block_time and start_ts <= block_time <= end_ts\<close>: None and 0 are falsy.\<close>

definition time_in_range :: "int \<Rightarrow> int \<Rightarrow> sig_info \<Rightarrow> bool" where
  "time_in_range start_ts end_ts sig_info =
     (case blockTime sig_info of
        None \<Rightarrow> False
      | Some block_time \<Rightarrow> block_time \<noteq> 0 \<and> start_ts \<le> block_time \<and> block_time \<le> end_ts)"

text \<open>\<^verbatim>\<open>last_sig_time and last_sig_time < start_ts\<close>.\<close>

definition predates :: "int \<Rightarrow> sig_info \<Rightarrow> bool" where
  "predates start_ts sig_info =
     (case blockTime sig_info of
        None \<Rightarrow> False
      | Some last_sig_time \<Rightarrow> last_sig_time \<noteq> 0 \<and> last_sig_time < start_ts)"

text \<open>
  The date-range loop \<^verbatim>\<open>while fetched_count < 20000\<close>, entered with the cursor, the
  count and the signatures collected so far. An exception of the client leaves the loop
  (\<open>Inl\<close>).
\<close>

function date_range_scan ::
  "sig_client \<Rightarrow> int \<Rightarrow> int \<Rightarrow> string option \<Rightarrow> nat \<Rightarrow> sig_info list \<Rightarrow>
   py_exn + sig_info list" where
  "date_range_scan client start_ts end_ts before_sig fetched_count signatures =
     (if fetched_count < 20000 then
        (case client (Some 1000) before_sig of
           Inl e \<Rightarrow> Inl e
         | Inr response \<Rightarrow>
             if page_unusable response then Inr signatures
             else if predates start_ts (last (batch_of response)) then
               Inr (signatures @ filter (time_in_range start_ts end_ts) (batch_of response))
             else if length (batch_of response) < 1000 then
               Inr (signatures @ filter (time_in_range start_ts end_ts) (batch_of response))
             else
               date_range_scan client start_ts end_ts
                 (Some (signature (last (batch_of response))))
                 (fetched_count + length (batch_of response))
                 (signatures @ filter (time_in_range start_ts end_ts) (batch_of response)))
      else Inr signatures)"
  by pat_completeness auto
termination
  by (relation "measure (\<lambda>(client, start_ts, end_ts, before_sig, fetched_count, signatures).
        20000 - fetched_count)") auto

declare date_range_scan.simps [simp del]

text \<open>
  \<^verbatim>\<open>if end_block and slot > end_block\<close> and \<^verbatim>\<open>if start_block and slot < start_block\<close>:
  a bound that is None or 0 is falsy and tests nothing.
\<close>

definition above_end :: "int option \<Rightarrow> int \<Rightarrow> bool" where
  "above_end end_block s =
     (case end_block of None \<Rightarrow> False | Some e \<Rightarrow> e \<noteq> 0 \<and> e < s)"

definition below_start :: "int option \<Rightarrow> int \<Rightarrow> bool" where
  "below_start start_block s =
     (case start_block of None \<Rightarrow> False | Some b \<Rightarrow> b \<noteq> 0 \<and> s < b)"

text \<open>
  The inner loop \<^verbatim>\<open>for sig_info in batch\<close> of the block-range scan: the signatures
  after the page, and \<^verbatim>\<open>stop_fetching\<close>.
\<close>

fun block_range_page ::
  "int option \<Rightarrow> int option \<Rightarrow> sig_info list \<Rightarrow> sig_info list \<Rightarrow> sig_info list \<times> bool" where
  "block_range_page start_block end_block [] signatures = (signatures, False)"
| "block_range_page start_block end_block (sig_info # rest) signatures =
     (if above_end end_block (slot sig_info)
      then block_range_page start_block end_block rest signatures
      else if below_start start_block (slot sig_info) then (signatures, True)
      else block_range_page start_block end_block rest (signatures @ [sig_info]))"

function block_range_scan ::
  "sig_client \<Rightarrow> int option \<Rightarrow> int option \<Rightarrow> string option \<Rightarrow> nat \<Rightarrow> sig_info list \<Rightarrow>
   py_exn + sig_info list" where
  "block_range_scan client start_block end_block before_sig fetched_count signatures =
     (if fetched_count < 5000 then
        (case client (Some 1000) before_sig of
           Inl e \<Rightarrow> Inl e
         | Inr response \<Rightarrow>
             if page_unusable response then Inr signatures
             else if snd (block_range_page start_block end_block (batch_of response) signatures)
                     \<or> length (batch_of response) < 1000 then
               Inr (fst (block_range_page start_block end_block (batch_of response) signatures))
             else
               block_range_scan client start_block end_block
                 (Some (signature (last (batch_of response))))
                 (fetched_count + length (batch_of response))
                 (fst (block_range_page start_block end_block (batch_of response) signatures)))
      else Inr signatures)"
  by pat_completeness auto
termination
  by (relation "measure (\<lambda>(client, start_block, end_block, before_sig, fetched_count, signatures).
        5000 - fetched_count)") auto

declare block_range_scan.simps [simp del]

text \<open>\<^verbatim>\<open>if start_block\<close>, \<^verbatim>\<open>start_block or end_block\<close>: the truth test of an optional integer.\<close>

definition opt_truthy :: "int option \<Rightarrow> bool" where
  "opt_truthy v = (case v of None \<Rightarrow> False | Some n \<Rightarrow> n \<noteq> 0)"

text \<open>
  The choice of the mode in \<^verbatim>\<open>fetch_and_parse_transactions\<close> and the signatures it
  collects. \<open>start_date\<close> and \<open>end_date\<close> are the timestamps of the two datetimes
  (\<^verbatim>\<open>int(start_date.timestamp())\<close>), None when the argument is None: a datetime is always
  truthy. In the count mode an unusable page makes the function return the empty list, which
  is what it returns for no signatures.
\<close>

definition discover_signatures ::
  "sig_client \<Rightarrow> int option \<Rightarrow> int option \<Rightarrow> int option \<Rightarrow> int option \<Rightarrow> int option \<Rightarrow>
   py_exn + sig_info list" where
  "discover_signatures client limit start_block end_block start_date end_date =
     (case (start_date, end_date) of
        (Some start_ts, Some end_ts) \<Rightarrow> date_range_scan client start_ts end_ts None 0 []
      | _ \<Rightarrow>
          if opt_truthy start_block \<or> opt_truthy end_block
          then block_range_scan client start_block end_block None 0 []
          else (case client limit None of
                  Inl e \<Rightarrow> Inl e
                | Inr response \<Rightarrow>
                    if page_unusable response then Inr [] else Inr (batch_of response)))"

text \<open>
  The loop \<^verbatim>\<open>for sig_info, tx_response in zip(signatures, tx_responses)\<close> that extends
  \<^verbatim>\<open>parsed_data\<close>: the records collected, and the exception that ended the loop if one
  did.
\<close>

fun parse_pairs ::
  "(json \<Rightarrow> py_exn + string) \<Rightarrow> (sig_info \<times> (string \<times> json) list option) list \<Rightarrow>
   transfer_record list \<Rightarrow> transfer_record list \<times> py_exn option" where
  "parse_pairs strftime [] parsed_data = (parsed_data, None)"
| "parse_pairs strftime ((sig_info, tx_response) # rest) parsed_data =
     (case parse_transaction_details strftime tx_response sig_info of
        Inl e \<Rightarrow> (parsed_data, Some e)
      | Inr recs \<Rightarrow> parse_pairs strftime rest (parsed_data @ recs))"

text \<open>
  \<^verbatim>\<open>fetch_and_parse_transactions\<close>: whatever is raised inside the \<^verbatim>\<open>try\<close> is logged and
  the records parsed so far are returned.
\<close>

definition fetch_and_parse_transactions ::
  "(json \<Rightarrow> py_exn + string) \<Rightarrow> sig_client \<Rightarrow> tx_client \<Rightarrow>
   int option \<Rightarrow> int option \<Rightarrow> int option \<Rightarrow> int option \<Rightarrow> int option \<Rightarrow> transfer_record list" where
  "fetch_and_parse_transactions strftime client tx limit start_block end_block start_date end_date =
     (case discover_signatures client limit start_block end_block start_date end_date of
        Inl e \<Rightarrow> []
      | Inr signatures \<Rightarrow> fst (parse_pairs strftime (fetch_all tx signatures) []))"

text \<open>
  The inner loop of the since-marker scan: the new signatures after the page, and
  \<^verbatim>\<open>found_last_sig\<close>. The marker is an optional string; None equals no signature.
\<close>

fun collect_new ::
  "string option \<Rightarrow> sig_info list \<Rightarrow> sig_info list \<Rightarrow> sig_info list \<times> bool" where
  "collect_new last_signature [] new_signatures_info = (new_signatures_info, False)"
| "collect_new last_signature (sig_info # rest) new_signatures_info =
     (if Some (signature sig_info) = last_signature then (new_signatures_info, True)
      else collect_new last_signature rest (new_signatures_info @ [sig_info]))"

text \<open>\<^verbatim>\<open>if not newest_signature: newest_signature = batch[0]["signature"]\<close>.\<close>

definition track_newest :: "string option \<Rightarrow> sig_info list \<Rightarrow> string option" where
  "track_newest newest_signature batch =
     (if newest_signature = None \<or> newest_signature = Some []
      then Some (signature (hd batch)) else newest_signature)"

text \<open>
  The loop \<^verbatim>\<open>for _ in range(10)\<close> with the pages that are left: the new signatures and
  the newest signature seen, or the exception of the client.
\<close>

fun since_marker_scan ::
  "sig_client \<Rightarrow> string option \<Rightarrow> nat \<Rightarrow> string option \<Rightarrow> string option \<Rightarrow> sig_info list \<Rightarrow>
   py_exn + sig_info list \<times> string option" where
  "since_marker_scan client last_signature 0 before_sig newest_signature new_signatures_info =
     Inr (new_signatures_info, newest_signature)"
| "since_marker_scan client last_signature (Suc pages_left) before_sig newest_signature
     new_signatures_info =
     (case client (Some 1000) before_sig of
        Inl e \<Rightarrow> Inl e
      | Inr response \<Rightarrow>
          if page_unusable response then Inr (new_signatures_info, newest_signature)
          else if snd (collect_new last_signature (batch_of response) new_signatures_info)
                  \<or> length (batch_of response) < 1000 then
            Inr (fst (collect_new last_signature (batch_of response) new_signatures_info),
                 track_newest newest_signature (batch_of response))
          else
            since_marker_scan client last_signature pages_left
              (Some (signature (last (batch_of response))))
              (track_newest newest_signature (batch_of response))
              (fst (collect_new last_signature (batch_of response) new_signatures_info)))"

text \<open>
  \<^verbatim>\<open>fetch_and_parse_new_transactions\<close>: the records and the marker to keep. Nothing new,
  and any exception, give the empty list and the marker that was passed in.
\<close>

definition fetch_and_parse_new_transactions ::
  "(json \<Rightarrow> py_exn + string) \<Rightarrow> sig_client \<Rightarrow> tx_client \<Rightarrow> string option \<Rightarrow>
   transfer_record list \<times> string option" where
  "fetch_and_parse_new_transactions strftime client tx last_signature =
     (case since_marker_scan client last_signature 10 None None [] of
        Inl e \<Rightarrow> ([], last_signature)
      | Inr (new_signatures_info, newest_signature) \<Rightarrow>
          if new_signatures_info = [] then ([], last_signature)
          else (case parse_pairs strftime (fetch_all tx new_signatures_info) [] of
                  (parsed_data, Some e) \<Rightarrow> ([], last_signature)
                | (parsed_data, None) \<Rightarrow> (parsed_data, newest_signature)))"

text \<open>
  A provider that serves a fixed history, newest first, in pages: the page after the
  cursor, cut at the limit (1000 when none is given). The client passes a cursor on only
  when it is truthy (\<^verbatim>\<open>if before: config["before"] = before\<close>), so the empty string
  asks for the first page as None does.
\<close>

definition after_cursor :: "string option \<Rightarrow> sig_info list \<Rightarrow> sig_info list" where
  "after_cursor before hist =
     (case before of
        None \<Rightarrow> hist
      | Some s \<Rightarrow> if s = [] then hist else drop 1 (dropWhile (\<lambda>d. signature d \<noteq> s) hist))"

definition history_client :: "sig_info list \<Rightarrow> sig_client" where
  "history_client hist limit before =
     Inr \<lparr>resp_error = False,
          resp_result =
            Some (take (case limit of Some n \<Rightarrow> nat n | None \<Rightarrow> 1000) (after_cursor before hist))\<rparr>"

text \<open>
  A history is newest first when no descriptor is confirmed later than one before it
  (descriptors without a confirmation time are not compared).
\<close>

definition newest_first :: "sig_info list \<Rightarrow> bool" where
  "newest_first hist =
     sorted_wrt (\<lambda>a b. case (blockTime a, blockTime b) of
                          (Some ta, Some tb) \<Rightarrow> tb \<le> ta
                        | _ \<Rightarrow> True) hist"

text \<open>The confirmation time lies in the closed range, as the specification words it.\<close>

definition confirmed_within :: "int \<Rightarrow> int \<Rightarrow> sig_info \<Rightarrow> bool" where
  "confirmed_within start_ts end_ts sig_info =
     (case blockTime sig_info of
        None \<Rightarrow> False
      | Some t \<Rightarrow> start_ts \<le> t \<and> t \<le> end_ts)"

text \<open>Two descriptors of a short history, for the examples of the scans.\<close>

definition desc_a :: sig_info where
  "desc_a = \<lparr>signature = ''sigA'', slot = 200, blockTime = Some 1700000200\<rparr>"

definition desc_b :: sig_info where
  "desc_b = \<lparr>signature = ''sigB'', slot = 100, blockTime = Some 1700000100\<rparr>"

definition failing_client :: sig_client where
  "failing_client limit before = Inl (Exception ''connection reset'')"

text \<open>
  The cursor the date-range scan holds after \<open>p\<close> descriptors of a history: none at the
  start, the signature of the last descriptor scanned afterwards.
\<close>

definition cursor_at :: "sig_info list \<Rightarrow> nat \<Rightarrow> string option" where
  "cursor_at hist p = (if p = 0 then None else Some (signature (hist ! (p - 1))))"

text \<open>A descriptor confirmed at the Unix epoch, time 0.\<close>

definition desc_epoch :: sig_info where
  "desc_epoch = \<lparr>signature = ''sigE'', slot = 1, blockTime = Some 0\<rparr>"

section \<open>The notification formatter (monitoring.py)\<close>

text \<open>\<^verbatim>\<open>abs(x) > 0\<close> and \<^verbatim>\<open>x > 0\<close>; every comparison with NaN is false.\<close>

fun float_nonzero :: "pyfloat \<Rightarrow> bool" where
  "float_nonzero (Finite r) = (r \<noteq> 0)"
| "float_nonzero NaN = False"
| "float_nonzero x = True"

fun float_positive :: "pyfloat \<Rightarrow> bool" where
  "float_positive (Finite r) = (0 < r)"
| "float_positive PosInf = True"
| "float_positive x = False"

fun float_abs :: "pyfloat \<Rightarrow> pyfloat" where
  "float_abs (Finite r) = Finite \<bar>r\<bar>"
| "float_abs NegInf = PosInf"
| "float_abs x = x"

text \<open>
  \<^verbatim>\<open>v[i]\<close> for an index \<open>i\<close> that is not negative: an item of a list, a character of a
  string. Out of range is IndexError, a dictionary has no integer key (KeyError), any
  other value is not subscriptable (TypeError); the three are caught together where this
  is used, so they are one \<open>None\<close>.
\<close>

fun py_index :: "json \<Rightarrow> nat \<Rightarrow> json option" where
  "py_index (JList xs) i = (if i < length xs then Some (xs ! i) else None)"
| "py_index (JStr s) i = (if i < length s then Some (JStr [s ! i]) else None)"
| "py_index v i = None"

text \<open>
  \<^verbatim>\<open>next((i for i, acc in enumerate(account_keys) if acc == wallet_address), -1)\<close>:
  the first position of the address, \<open>None\<close> for -1.
\<close>

fun first_index :: "json list \<Rightarrow> string \<Rightarrow> nat \<Rightarrow> nat option" where
  "first_index [] wallet i = None"
| "first_index (acc # rest) wallet i =
     (if acc = JStr wallet then Some i else first_index rest wallet (Suc i))"

text \<open>
  The block "Get SOL balance change". AttributeError from a \<^verbatim>\<open>.get\<close> on something
  that is not a dictionary and OverflowError from the subtraction or the division are not
  among the caught KeyError, IndexError and TypeError and leave the function; everything
  caught leaves \<^verbatim>\<open>sol_change\<close> at 0.
\<close>

definition sol_balance_change ::
  "json \<Rightarrow> (string \<times> json) list \<Rightarrow> string \<Rightarrow> py_exn + pyfloat" where
  "sol_balance_change tx_result meta wallet =
     py_bind (py_get tx_result ''message'' (JDict [])) (\<lambda>message.
     py_bind (py_get message ''accountKeys'' (JList [])) (\<lambda>account_keys.
       case py_iter account_keys of
         Inl e \<Rightarrow> Inr (Finite 0)
       | Inr keys \<Rightarrow>
           (case first_index keys wallet 0 of
              None \<Rightarrow> Inr (Finite 0)
            | Some addr_idx \<Rightarrow>
                (case map_of meta ''preBalances'' of
                   None \<Rightarrow> Inr (Finite 0)
                 | Some pre_balances \<Rightarrow>
                     (case py_index pre_balances addr_idx of
                        None \<Rightarrow> Inr (Finite 0)
                      | Some pre_sol \<Rightarrow>
                          (case map_of meta ''postBalances'' of
                             None \<Rightarrow> Inr (Finite 0)
                           | Some post_balances \<Rightarrow>
                               (case py_index post_balances addr_idx of
                                  None \<Rightarrow> Inr (Finite 0)
                                | Some post_sol \<Rightarrow>
                                    (case py_bind (py_sub post_sol pre_sol) num_div_billion of
                                       Inr sol_change \<Rightarrow> Inr sol_change
                                     | Inl e \<Rightarrow>
                                         if e = TypeError then Inr (Finite 0)
                                         else Inl e))))))))"

text \<open>
  A key of a Python dictionary: equal numbers are one key whatever their type
  (\<^verbatim>\<open>True == 1 == 1.0\<close>), and a list or a dictionary is not hashable (TypeError).
\<close>

definition dict_key :: "json \<Rightarrow> py_exn + json" where
  "dict_key v =
     (case v of
        JBool b \<Rightarrow> Inr (JInt (if b then 1 else 0))
      | JFloat r \<Rightarrow> Inr (if of_int \<lfloor>r\<rfloor> = r then JInt \<lfloor>r\<rfloor> else JFloat r)
      | JList xs \<Rightarrow> Inl TypeError
      | JDict kvs \<Rightarrow> Inl TypeError
      | _ \<Rightarrow> Inr v)"

text \<open>\<^verbatim>\<open>d[k] = v\<close> on a dictionary kept as a list of items in insertion order.\<close>

definition dict_put :: "(json \<times> json) list \<Rightarrow> json \<Rightarrow> json \<Rightarrow> (json \<times> json) list" where
  "dict_put d k v =
     (if k \<in> set (map fst d) then map (\<lambda>kv. if fst kv = k then (k, v) else kv) d
      else d @ [(k, v)])"

text \<open>
  \<^verbatim>\<open>{b['mint']: b for b in balances if b.get('owner') == wallet_address}\<close>, item by
  item: \<^verbatim>\<open>b.get\<close> raises AttributeError for an entry that is not a dictionary, and
  \<^verbatim>\<open>b['mint']\<close> KeyError for an owned entry without a mint.
\<close>

fun balances_by_mint ::
  "string \<Rightarrow> json list \<Rightarrow> (json \<times> json) list \<Rightarrow> py_exn + (json \<times> json) list" where
  "balances_by_mint wallet [] d = Inr d"
| "balances_by_mint wallet (b # rest) d =
     py_bind (py_get b ''owner'' JNull) (\<lambda>owner.
       if owner = JStr wallet then
         (case b of
            JDict kvs \<Rightarrow>
              (case map_of kvs ''mint'' of
                 None \<Rightarrow> Inl KeyError
               | Some mint \<Rightarrow>
                   py_bind (dict_key mint) (\<lambda>k. balances_by_mint wallet rest (dict_put d k b)))
          | _ \<Rightarrow> Inl AttributeError)
       else balances_by_mint wallet rest d)"

text \<open>
  \<^verbatim>\<open>float(d.get(mint, {}).get('uiTokenAmount', {}).get('uiAmountString', '0'))\<close>.
  The conversion \<^verbatim>\<open>float\<close> is Python's and is the parameter \<open>py_float\<close>: it gives
  the float a string or a number denotes and raises ValueError or TypeError for the rest.
\<close>

definition entry_amount :: "(json \<Rightarrow> py_exn + pyfloat) \<Rightarrow> json \<Rightarrow> py_exn + pyfloat" where
  "entry_amount py_float b =
     py_bind (py_get b ''uiTokenAmount'' (JDict [])) (\<lambda>ui.
     py_bind (py_get ui ''uiAmountString'' (JStr ''0'')) py_float)"

definition token_amount ::
  "(json \<Rightarrow> py_exn + pyfloat) \<Rightarrow> (json \<times> json) list \<Rightarrow> json \<Rightarrow> py_exn + pyfloat" where
  "token_amount py_float d mint =
     entry_amount py_float (case map_of d mint of Some b \<Rightarrow> b | None \<Rightarrow> JDict [])"

text \<open>
  The loop \<^verbatim>\<open>for mint in all_mints\<close>, collecting the pairs of mint and change. Python
  does not fix the order in which a set is walked; the model walks the mints in the order
  of their first appearance.
\<close>

fun token_changes_loop ::
  "(json \<Rightarrow> py_exn + pyfloat) \<Rightarrow> (json \<times> json) list \<Rightarrow> (json \<times> json) list \<Rightarrow> json list \<Rightarrow>
   (json \<times> pyfloat) list \<Rightarrow> py_exn + (json \<times> pyfloat) list" where
  "token_changes_loop py_float pre post [] token_changes = Inr token_changes"
| "token_changes_loop py_float pre post (mint # rest) token_changes =
     py_bind (token_amount py_float pre mint) (\<lambda>pre_amount.
     py_bind (token_amount py_float post mint) (\<lambda>post_amount.
       if float_nonzero (float_sub post_amount pre_amount)
       then token_changes_loop py_float pre post rest
              (token_changes @ [(mint, float_sub post_amount pre_amount)])
       else token_changes_loop py_float pre post rest token_changes))"

text \<open>
  The two labels of a line, the green "received" and the red "sent" one, and a line:
  label, \<^verbatim>\<open>abs(change)\<close> (printed with six decimals) and the symbol.
\<close>

datatype direction = Received | Sent

record notification_line =
  line_direction :: direction
  line_amount :: pyfloat
  line_symbol :: json

definition direction_of :: "pyfloat \<Rightarrow> direction" where
  "direction_of change = (if float_positive change then Received else Sent)"

text \<open>\<^verbatim>\<open>tc['mint'][:6] + "..."\<close>, the symbol shown when the prices know none.\<close>

definition short_mint :: "json \<Rightarrow> py_exn + json" where
  "short_mint mint = (case mint of JStr s \<Rightarrow> Inr (JStr (take 6 s @ ''...'')) | _ \<Rightarrow> Inl TypeError)"

text \<open>
  The loop \<^verbatim>\<open>for tc in token_changes\<close> over the prices, a dictionary from mint to a
  dictionary with the symbol.
\<close>

fun token_lines ::
  "(json \<times> json) list \<Rightarrow> (json \<times> pyfloat) list \<Rightarrow> py_exn + notification_line list" where
  "token_lines prices [] = Inr []"
| "token_lines prices ((mint, change) # rest) =
     py_bind (short_mint mint) (\<lambda>dflt.
     py_bind (py_get (case map_of prices mint of Some p \<Rightarrow> p | None \<Rightarrow> JDict []) ''symbol'' dflt)
       (\<lambda>symbol.
     py_bind (token_lines prices rest) (\<lambda>lines.
       Inr (\<lparr>line_direction = direction_of change, line_amount = float_abs change,
              line_symbol = symbol\<rparr> # lines))))"

text \<open>
  The message that is returned when there is a line: the header with the first and the
  last four characters of the address, the lines, and the link with the signature. Its
  text is never empty; the empty string, "no notification", is \<open>None\<close>.
\<close>

record notification =
  note_wallet_head :: string
  note_wallet_tail :: string
  note_lines :: "notification_line list"
  note_signature :: json

text \<open>
  \<^verbatim>\<open>format_transaction_notification(tx_info, wallet_address, rpc_url)\<close>. The request
  for the token accounts of the wallet is left out: its result is stored in a variable
  that is never read, and what it raises is caught and logged. \<open>get_token_prices\<close> is
  the outcome of the call \<^verbatim>\<open>get_token_prices([tc['mint'] for tc in token_changes])\<close>;
  the function of that name in solana\_helpers.py takes the API key as a second argument
  that has no default value.
\<close>

definition format_transaction_notification ::
  "(json \<Rightarrow> py_exn + pyfloat) \<Rightarrow> (json list \<Rightarrow> py_exn + (json \<times> json) list) \<Rightarrow>
   (string \<times> json) list \<Rightarrow> string \<Rightarrow> py_exn + notification option" where
  "format_transaction_notification py_float get_token_prices tx_info wallet =
     (case map_of tx_info ''signature'' of
        None \<Rightarrow> Inl KeyError
      | Some sig \<Rightarrow>
          (let tx_result = dict_get tx_info ''transaction'' (JDict []);
               meta = dict_get tx_info ''meta'' (JDict [])
           in if \<not> truthy tx_result \<or> \<not> truthy meta then Inr None
              else py_bind (py_get meta ''err'' JNull) (\<lambda>err.
                if truthy err then Inr None
                else
                  py_bind (sol_balance_change tx_result (case meta of JDict m \<Rightarrow> m | _ \<Rightarrow> []) wallet)
                    (\<lambda>sol_change.
                  py_bind (py_get meta ''preTokenBalances'' (JList [])) (\<lambda>pre_list.
                  py_bind (py_iter pre_list) (\<lambda>pre_entries.
                  py_bind (balances_by_mint wallet pre_entries []) (\<lambda>pre_token_balances.
                  py_bind (py_get meta ''postTokenBalances'' (JList [])) (\<lambda>post_list.
                  py_bind (py_iter post_list) (\<lambda>post_entries.
                  py_bind (balances_by_mint wallet post_entries []) (\<lambda>post_token_balances.
                  py_bind (token_changes_loop py_float pre_token_balances post_token_balances
                             (remdups (map fst pre_token_balances @ map fst post_token_balances)) [])
                    (\<lambda>token_changes.
                  py_bind (if token_changes = [] then Inr []
                           else py_bind (get_token_prices (map fst token_changes))
                                  (\<lambda>prices. token_lines prices token_changes))
                    (\<lambda>tlines.
                    let lines =
                          (if float_nonzero sol_change
                           then [\<lparr>line_direction = direction_of sol_change,
                                   line_amount = float_abs sol_change,
                                   line_symbol = JStr ''SOL''\<rparr>]
                           else []) @ tlines
                    in if lines = [] then Inr None
                       else Inr (Some \<lparr>note_wallet_head = take 4 wallet,
                                        note_wallet_tail = drop (length wallet - 4) wallet,
                                        note_lines = lines,
                                        note_signature = sig\<rparr>)))))))))))))"

text \<open>
  An entry of a token-balance list belongs to the wallet when its owner is the wallet's
  address, the test of the two dictionary comprehensions.
\<close>

definition owned_by :: "string \<Rightarrow> json \<Rightarrow> bool" where
  "owned_by wallet b = (py_get b ''owner'' JNull = Inr (JStr wallet))"

text \<open>
  Example inputs of the formatter, after the repository's tests: a transfer of 1 SOL out
  of \<^verbatim>\<open>my_wallet\<close>, the same transfer with the two accounts in the other order, and a
  transaction that leaves the wallet's balances as they were while another owner's token
  balance changes. \<open>sample_float\<close> stands for Python's
  \<^verbatim>\<open>float\<close> on the amounts of the examples.
\<close>

definition sample_float :: "json \<Rightarrow> py_exn + pyfloat" where
  "sample_float v =
     (if v = JStr ''100.0'' then Inr (Finite 100)
      else if v = JStr ''50.0'' then Inr (Finite 50)
      else if v = JStr ''0'' then Inr (Finite 0)
      else Inl ValueError)"

definition no_prices :: "json list \<Rightarrow> py_exn + (json \<times> json) list" where
  "no_prices mints = Inl TypeError"

definition sample_tx_info_sol :: "(string \<times> json) list" where
  "sample_tx_info_sol =
     [(''meta'', JDict [(''err'', JNull),
                        (''preBalances'', JList [JInt 10000000000, JInt 5000000000]),
                        (''postBalances'', JList [JInt 9000000000, JInt 6000000000]),
                        (''preTokenBalances'', JList []),
                        (''postTokenBalances'', JList [])]),
      (''transaction'', JDict [(''message'',
          JDict [(''accountKeys'', JList [JStr ''my_wallet'', JStr ''other_wallet''])])]),
      (''signature'', JStr ''sol_sig_123'')]"

definition sample_tx_info_sol_second :: "(string \<times> json) list" where
  "sample_tx_info_sol_second =
     [(''meta'', JDict [(''err'', JNull),
                        (''preBalances'', JList [JInt 5000000000, JInt 10000000000]),
                        (''postBalances'', JList [JInt 6000000000, JInt 9000000000]),
                        (''preTokenBalances'', JList []),
                        (''postTokenBalances'', JList [])]),
      (''transaction'', JDict [(''message'',
          JDict [(''accountKeys'', JList [JStr ''other_wallet'', JStr ''my_wallet''])])]),
      (''signature'', JStr ''sol_sig_123'')]"

definition token_entry :: "string \<Rightarrow> string \<Rightarrow> string \<Rightarrow> json" where
  "token_entry mint owner ui_amount =
     JDict [(''mint'', JStr mint), (''owner'', JStr owner),
            (''uiTokenAmount'', JDict [(''uiAmountString'', JStr ui_amount)])]"

definition sample_tx_info_no_change :: "(string \<times> json) list" where
  "sample_tx_info_no_change =
     [(''meta'', JDict [(''err'', JNull),
                        (''preBalances'', JList [JInt 10000000000]),
                        (''postBalances'', JList [JInt 10000000000]),
                        (''preTokenBalances'',
                           JList [token_entry ''USDC_mint'' ''my_wallet'' ''100.0'',
                                  token_entry ''USDC_mint'' ''other_wallet'' ''100.0'']),
                        (''postTokenBalances'',
                           JList [token_entry ''USDC_mint'' ''my_wallet'' ''100.0'',
                                  token_entry ''USDC_mint'' ''other_wallet'' ''50.0''])]),
      (''transaction'', JDict [(''message'', JDict [(''accountKeys'', JList [JStr ''my_wallet''])])]),
      (''signature'', JStr ''token_sig_456'')]"

text \<open>
  A token-balance entry as the provider sends it: a dictionary whose mint is a string
  and whose amount string \<^verbatim>\<open>float\<close> converts.
\<close>

definition wf_entry :: "(json \<Rightarrow> py_exn + pyfloat) \<Rightarrow> json \<Rightarrow> bool" where
  "wf_entry py_float b =
     ((\<exists>kvs m. b = JDict kvs \<and> map_of kvs ''mint'' = Some (JStr m))
      \<and> (\<exists>x. entry_amount py_float b = Inr x))"

section \<open>Basic facts about the sequencing of steps\<close>

lemma py_bind_Inr_iff:
  "py_bind m f = Inr y \<longleftrightarrow> (\<exists>v. m = Inr v \<and> f v = Inr y)"
  by (cases m) (simp_all add: py_bind_def)

lemma py_bind_Inr [simp]: "py_bind (Inr v) f = f v"
  by (simp add: py_bind_def)

lemma py_bind_Inl [simp]: "py_bind (Inl e) f = Inl e"
  by (simp add: py_bind_def)

section \<open>Properties of the rounding\<close>

lemma pow2_powi: "pow2 k = 2 powi k"
  by (simp add: pow2_def power_int_def field_simps)

lemma pow2_pos: "0 < pow2 k"
  by (simp add: pow2_def)

lemma pow2_add: "pow2 (a + b) = pow2 a * pow2 b"
  by (simp add: pow2_powi power_int_add)

lemma bitlen_rat_bounds:
  assumes "0 < p"
  shows "pow2 (bitlen p - 1) \<le> of_int p \<and> of_int p < pow2 (bitlen p)"
proof -
  have b: "2 ^ nat (bitlen p - 1) \<le> p \<and> p < 2 ^ nat (bitlen p)"
    using assms by (rule bitlen_bounds)
  have ge: "1 \<le> bitlen p" using assms by (simp add: bitlen_alt_def)
  have "(of_int (2 ^ nat (bitlen p - 1)) :: rat) \<le> of_int p"
    using b by (simp only: of_int_le_iff)
  moreover have "(of_int p :: rat) < of_int (2 ^ nat (bitlen p))"
    using b by (simp only: of_int_less_iff)
  ultimately show ?thesis using ge by (simp add: pow2_def)
qed

text \<open>The binary exponent is the one its name says.\<close>

lemma binary_exponent_bounds:
  assumes "0 < x"
  shows "pow2 (binary_exponent x) \<le> x \<and> x < pow2 (binary_exponent x + 1)"
proof -
  obtain p q where pq: "quotient_of x = (p, q)" by (cases "quotient_of x")
  have q: "0 < q" using pq by (rule quotient_of_denom_pos)
  have x: "x = of_int p / of_int q" using pq by (rule quotient_of_div)
  have p: "0 < p" using assms x q by (simp add: zero_less_divide_iff)
  define k where "k = bitlen p - bitlen q"
  have bp: "pow2 (bitlen p - 1) \<le> of_int p" "of_int p < pow2 (bitlen p)"
    using bitlen_rat_bounds[OF p] by simp_all
  have bq: "pow2 (bitlen q - 1) \<le> of_int q" "of_int q < pow2 (bitlen q)"
    using bitlen_rat_bounds[OF q] by simp_all
  have qpos: "(0::rat) < of_int q" using q by simp
  have e1: "pow2 (bitlen p) = pow2 (k + 1) * pow2 (bitlen q - 1)"
    unfolding pow2_add[symmetric] k_def by simp
  have e2: "pow2 (bitlen p - 1) = pow2 (k - 1) * pow2 (bitlen q)"
    unfolding pow2_add[symmetric] k_def by simp
  have "of_int p < pow2 (k + 1) * of_int q"
  proof -
    have "pow2 (k + 1) * pow2 (bitlen q - 1) \<le> pow2 (k + 1) * of_int q"
      using bq(1) pow2_pos[of "k + 1"] by simp
    then show ?thesis using bp(2) e1 by simp
  qed
  then have up: "x < pow2 (k + 1)"
    using qpos by (simp add: x pos_divide_less_eq)
  have "pow2 (k - 1) * of_int q \<le> of_int p"
  proof -
    have "pow2 (k - 1) * of_int q \<le> pow2 (k - 1) * pow2 (bitlen q)"
      using bq(2) pow2_pos[of "k - 1"] by simp
    then show ?thesis using bp(1) e2 by simp
  qed
  then have lo: "pow2 (k - 1) \<le> x"
    using qpos by (simp add: x pos_le_divide_eq)
  have be: "binary_exponent x = (if pow2 k \<le> x then k else k - 1)"
    by (simp add: binary_exponent_def pq k_def Let_def)
  show ?thesis
    using up lo by (simp add: be)
qed

lemma round_double_zero: "round_double 0 = Finite 0"
  by (simp add: round_double_def)

lemma binary_exponent_one: "binary_exponent 1 = 0"
  by (simp add: binary_exponent_def pow2_def bitlen_def)

lemma round_double_one: "round_double 1 = Finite 1"
  by (simp add: round_double_def binary_exponent_one pow2_def round_half_even_def Let_def)

lemma round_double_minus_one: "round_double (- 1) = Finite (- 1)"
  by (simp add: round_double_def binary_exponent_one pow2_def round_half_even_def Let_def)

lemma pow2_less_imp: "pow2 a < pow2 b \<Longrightarrow> a < b"
proof (rule ccontr)
  assume l: "pow2 a < pow2 b" and "\<not> a < b"
  then have "b \<le> a" by simp
  then have "(2::rat) powi b \<le> 2 powi a" by (rule power_int_increasing) simp
  then show False using l by (simp add: pow2_powi)
qed

lemma binary_exponent_unique:
  assumes "pow2 e \<le> x" "x < pow2 (e + 1)"
  shows "binary_exponent x = e"
proof -
  have x: "0 < x" using assms(1) pow2_pos[of e] by simp
  have b: "pow2 (binary_exponent x) \<le> x" "x < pow2 (binary_exponent x + 1)"
    using binary_exponent_bounds[OF x] by simp_all
  have "pow2 e < pow2 (binary_exponent x + 1)" using assms(1) b(2) by simp
  then have 1: "e < binary_exponent x + 1" by (rule pow2_less_imp)
  have "pow2 (binary_exponent x) < pow2 (e + 1)" using assms(2) b(1) by simp
  then have 2: "binary_exponent x < e + 1" by (rule pow2_less_imp)
  from 1 2 show ?thesis by simp
qed

text \<open>Rounding a positive value whose binary exponent is known, and a negative one.\<close>

lemma round_double_pos:
  assumes "pow2 e \<le> x" "x < pow2 (e + 1)"
  shows "round_double x =
     (if pow2 1024 \<le> of_int (round_half_even (x / pow2 (max e (- 1022) - 52))) * pow2 (max e (- 1022) - 52)
      then PosInf
      else Finite (of_int (round_half_even (x / pow2 (max e (- 1022) - 52))) * pow2 (max e (- 1022) - 52)))"
proof -
  have x: "0 < x" using assms(1) pow2_pos[of e] by simp
  have e: "binary_exponent x = e" using assms by (rule binary_exponent_unique)
  have a: "\<bar>x\<bar> = x" using x by simp
  show ?thesis
    unfolding round_double_def a e using x by (simp add: Let_def)
qed

lemma round_double_minus:
  "round_double (- x) =
     (case round_double x of Finite r \<Rightarrow> Finite (- r) | PosInf \<Rightarrow> NegInf | NegInf \<Rightarrow> PosInf
      | NaN \<Rightarrow> NaN)"
  by (simp add: round_double_def Let_def)

lemma floor_rat_numeral:
  "\<lfloor>(numeral a :: rat) / numeral b\<rfloor> = numeral a div numeral b"
  using floor_divide_of_int_eq[of "numeral a" "numeral b", where ?'a = rat] by simp

lemma floor_rat_one_numeral:
  "\<lfloor>(1 :: rat) / numeral b\<rfloor> = 1 div numeral b"
  using floor_divide_of_int_eq[of 1 "numeral b", where ?'a = rat] by simp

text \<open>
  Rounding at work: a tenth is not a double; an integer of more than 53 bits loses its
  last bits; the smallest double divided by 10^9 is 0; and the first value that rounds
  to \<open>2 ^ 1024\<close> overflows.
\<close>

lemma round_double_tenth:
  "round_double (1 / 10) = Finite (3602879701896397 / 36028797018963968)"
proof -
  have e: "binary_exponent (1 / 10) = - 4"
    by (rule binary_exponent_unique) (simp_all add: pow2_def)
  show ?thesis
    by (simp add: round_double_def e pow2_def round_half_even_def Let_def floor_rat_numeral)
qed

lemma round_double_54_bits:
  "round_double 10000000000000001 = Finite 10000000000000000"
proof -
  have e: "binary_exponent 10000000000000001 = 53"
    by (rule binary_exponent_unique) (simp_all add: pow2_def)
  show ?thesis
    by (simp add: round_double_def e pow2_def round_half_even_def Let_def floor_rat_numeral)
qed

lemma round_double_underflow:
  "round_double (pow2 (- 1074) / 1000000000) = Finite 0"
proof -
  have nz: "pow2 (- 1074) \<noteq> 0" using pow2_pos[of "- 1074"] by simp
  have m: "pow2 (- 1074) / 1000000000 / pow2 (max (- 1104) (- 1022) - 52) = 1 / 1000000000"
    using nz by simp
  have r: "round_half_even (1 / 1000000000) = 0"
    by (simp add: round_half_even_def Let_def floor_rat_one_numeral)
  have p: "\<not> pow2 1024 \<le> 0" using pow2_pos[of 1024] by simp
  have "pow2 (- 1104) \<le> pow2 (- 1074) / 1000000000" "pow2 (- 1074) / 1000000000 < pow2 (- 1104 + 1)"
    by (simp_all add: pow2_def)
  then show ?thesis
    by (simp only: round_double_pos m r) (simp add: p)
qed

lemma round_double_overflow:
  "round_double (2 ^ 1024 - 2 ^ 970) = PosInf"
proof -
  have m: "(2 ^ 1024 - 2 ^ 970) / pow2 (max 1023 (- 1022) - 52) = (2 ^ 54 - 1) / 2"
    by (simp add: pow2_def)
  have r: "round_half_even ((2 ^ 54 - 1) / 2) = 2 ^ 53"
    by (simp add: round_half_even_def Let_def floor_rat_numeral)
  have p: "pow2 1024 \<le> of_int (2 ^ 53) * pow2 (max 1023 (- 1022) - 52)"
    by (simp add: pow2_def)
  have "pow2 1023 \<le> 2 ^ 1024 - 2 ^ 970" "2 ^ 1024 - 2 ^ 970 < pow2 (1023 + 1)"
    by (simp_all add: pow2_def)
  then show ?thesis
    by (simp only: round_double_pos m r) (simp only: p if_True)
qed

text \<open>
  The same on the operations of the code: an integer is converted before a float is
  subtracted from it, so that 10000000000000001 - 1e16 is 0.0; the smallest double
  divided by 10^9 is 0.0; and an integer too large for a float raises OverflowError when
  a float is subtracted from it.
\<close>

lemma mixed_subtraction_rounds:
  "py_sub (JInt 10000000000000001) (JFloat 10000000000000000) = Inr (PyFloat (Finite 0))"
  by (simp add: py_sub_def int_to_float_def round_double_54_bits round_double_zero)

lemma tiny_quotient_underflows:
  "true_div_billion (JFloat (pow2 (- 1074))) = Inr (Finite 0)"
  by (simp add: true_div_billion_def round_double_underflow)

lemma huge_int_overflows:
  "py_sub (JInt (2 ^ 1024 - 2 ^ 970)) (JFloat 1) = Inl OverflowError"
  using round_double_overflow by (simp add: py_sub_def int_to_float_def)

section \<open>Properties of the batch fetch\<close>

lemma fetch_retry_loop_fail_step:
  "attempt < MAX_RETRIES - 1 \<Longrightarrow> g attempt = Inl e \<Longrightarrow>
   fetch_retry_loop g attempt d s = fetch_retry_loop g (attempt + 1) (d * 2) (s @ [d])"
  by (subst fetch_retry_loop.simps) (simp add: MAX_RETRIES_def)

lemma fetch_retry_loop_fail_last:
  "g 4 = Inl e \<Longrightarrow> fetch_retry_loop g 4 d s = (None, s)"
  by (simp add: fetch_retry_loop.simps[of g 4] fetch_retry_loop.simps[of g 5] MAX_RETRIES_def)

lemma fetch_retry_loop_success:
  "attempt < MAX_RETRIES \<Longrightarrow> g attempt = Inr r \<Longrightarrow>
   fetch_retry_loop g attempt d s = (Some r, s)"
  by (subst fetch_retry_loop.simps) simp

lemma fetch_retry_loop_exhausted:
  assumes "\<forall>k<MAX_RETRIES. isl (g k)"
  shows "fetch_retry_loop g 0 1 [] = (None, [1, 2, 4, 8])"
proof -
  have f: "\<And>k. k < 5 \<Longrightarrow> \<exists>e. g k = Inl e"
    using assms by (auto simp: MAX_RETRIES_def isl_def)
  obtain e0 e1 e2 e3 e4 where g:
    "g 0 = Inl e0" "g (Suc 0) = Inl e1" "g (Suc (Suc 0)) = Inl e2"
    "g (Suc (Suc (Suc 0))) = Inl e3" "g (Suc (Suc (Suc (Suc 0)))) = Inl e4"
    using f[of 0] f[of "Suc 0"] f[of "Suc (Suc 0)"] f[of "Suc (Suc (Suc 0))"]
      f[of "Suc (Suc (Suc (Suc 0)))"] by auto
  show ?thesis
    apply (subst fetch_retry_loop.simps, simp add: MAX_RETRIES_def g)
    apply (subst fetch_retry_loop.simps, simp add: MAX_RETRIES_def g)
    apply (subst fetch_retry_loop.simps, simp add: MAX_RETRIES_def g)
    apply (subst fetch_retry_loop.simps, simp add: MAX_RETRIES_def g)
    apply (subst fetch_retry_loop.simps, simp add: MAX_RETRIES_def g)
    apply (subst fetch_retry_loop.simps, simp add: MAX_RETRIES_def g)
    done
qed

lemma fetch_retry_loop_first_success:
  assumes "g k = Inr r" "k < MAX_RETRIES" "\<forall>j<k. isl (g j)" "a \<le> k"
  shows "fst (fetch_retry_loop g a d s) = Some r"
  using assms
proof (induction "k - a" arbitrary: a d s)
  case 0
  then show ?case by (simp add: fetch_retry_loop_success)
next
  case (Suc n)
  then have ak: "a < k" by simp
  then obtain e where e: "g a = Inl e" using Suc.prems(3) by (auto simp: isl_def)
  have n: "n = k - (a + 1)" using Suc.hyps(2) by simp
  have ih: "\<And>d s. fst (fetch_retry_loop g (a + 1) d s) = Some r"
    using Suc.hyps(1)[OF n Suc.prems(1,2,3)] ak by simp
  show ?case
    using e ak Suc.prems(2) ih by (subst fetch_retry_loop.simps) simp
qed

lemma gather_length: "length (gather_transactions client sigs) = length sigs"
  by (simp add: gather_transactions_def)

lemma gather_nth: "i < length sigs \<Longrightarrow>
  gather_transactions client sigs ! i = fst (fetch_transaction_with_retry (client i) (sigs ! i))"
  by (simp add: gather_transactions_def nth_enumerate_eq)

lemma fetch_all_nth: "i < length sigs \<Longrightarrow>
  fetch_all client sigs ! i = (sigs ! i, fst (fetch_transaction_with_retry (client i) (sigs ! i)))"
  by (simp add: fetch_all_def gather_length gather_nth)

lemma fetch_with_retry_exhausted:
  "\<forall>k<MAX_RETRIES. isl (client (signature sig) k) \<Longrightarrow>
   fetch_transaction_with_retry client sig = (None, [1, 2, 4, 8])"
  using fetch_retry_loop_exhausted[of "client (signature sig)"]
  by (simp add: fetch_transaction_with_retry_def INITIAL_DELAY_SECONDS_def)

lemma fetch_with_retry_first_success:
  "client (signature sig) k = Inr r \<Longrightarrow> k < MAX_RETRIES \<Longrightarrow>
   \<forall>j<k. isl (client (signature sig) j) \<Longrightarrow>
   fst (fetch_transaction_with_retry client sig) = Some r"
  using fetch_retry_loop_first_success[of "client (signature sig)" k r 0]
  by (simp add: fetch_transaction_with_retry_def)

text \<open>
  Claim C4. The batch fetch returns exactly one pair per input descriptor, in input
  order. A descriptor whose fetch raises at all five attempts is paired with None after
  sleeping 1, 2, 4 and 8 seconds between the attempts, and nothing is raised; a
  descriptor whose fetch answers at some attempt is paired with that answer.
\<close>

theorem fetch_all_one_pair_per_descriptor:
  "length (fetch_all client sigs) = length sigs
   \<and> map fst (fetch_all client sigs) = sigs
   \<and> (\<forall>i<length sigs. (\<forall>k<MAX_RETRIES. isl (client i (signature (sigs ! i)) k)) \<longrightarrow>
         fetch_all client sigs ! i = (sigs ! i, None)
         \<and> fetch_transaction_with_retry (client i) (sigs ! i) = (None, [1, 2, 4, 8]))
   \<and> (\<forall>i<length sigs. \<forall>k<MAX_RETRIES. \<forall>r.
         client i (signature (sigs ! i)) k = Inr r
         \<and> (\<forall>j<k. isl (client i (signature (sigs ! i)) j)) \<longrightarrow>
         fetch_all client sigs ! i = (sigs ! i, Some r))"
proof -
  have 1: "length (fetch_all client sigs) = length sigs"
    by (simp add: fetch_all_def gather_length)
  have 2: "map fst (fetch_all client sigs) = sigs"
    by (simp add: fetch_all_def gather_length)
  have 3: "\<forall>i<length sigs. (\<forall>k<MAX_RETRIES. isl (client i (signature (sigs ! i)) k)) \<longrightarrow>
         fetch_all client sigs ! i = (sigs ! i, None)
         \<and> fetch_transaction_with_retry (client i) (sigs ! i) = (None, [1, 2, 4, 8])"
    by (simp add: fetch_all_nth fetch_with_retry_exhausted)
  have 4: "\<forall>i<length sigs. \<forall>k<MAX_RETRIES. \<forall>r.
         client i (signature (sigs ! i)) k = Inr r
         \<and> (\<forall>j<k. isl (client i (signature (sigs ! i)) j)) \<longrightarrow>
         fetch_all client sigs ! i = (sigs ! i, Some r)"
    by (auto simp: fetch_all_nth dest: fetch_with_retry_first_success)
  from 1 2 3 4 show ?thesis by blast
qed

lemma client10_body:
  "fst (fetch_transaction_with_retry (client10 i) sig) =
     (if i = 2 \<or> i = 5 \<or> i = 7 then None else Some [(''result'', JStr (signature sig))])"
proof (cases "i = 2 \<or> i = 5 \<or> i = 7")
  case True
  then have "\<forall>k<MAX_RETRIES. isl (client10 i (signature sig) k)"
    by (simp add: client10_def)
  then show ?thesis using True by (simp add: fetch_with_retry_exhausted)
next
  case False
  then show ?thesis
    by (simp add: client10_def fetch_transaction_with_retry_def
        fetch_retry_loop_success MAX_RETRIES_def)
qed

theorem fetch_all_one_pair_per_descriptor_witness: "length (fetch_all client10 sigs10) = 10
  \<and> map fst (fetch_all client10 sigs10) = sigs10
  \<and> map snd (fetch_all client10 sigs10) =
      [Some [(''result'', JStr ''s0'')], Some [(''result'', JStr ''s1'')], None, Some [(''result'', JStr ''s3'')], Some [(''result'', JStr ''s4'')], None,
       Some [(''result'', JStr ''s6'')], None, Some [(''result'', JStr ''s8'')], Some [(''result'', JStr ''s9'')]]"
proof -
  have l: "length sigs10 = 10" by (simp add: sigs10_def)
  have "map snd (fetch_all client10 sigs10) = gather_transactions client10 sigs10"
    by (simp add: fetch_all_def gather_length)
  also have "\<dots> = [Some [(''result'', JStr ''s0'')], Some [(''result'', JStr ''s1'')], None, Some [(''result'', JStr ''s3'')], Some [(''result'', JStr ''s4'')], None,
       Some [(''result'', JStr ''s6'')], None, Some [(''result'', JStr ''s8'')], Some [(''result'', JStr ''s9'')]]"
    by (simp add: gather_transactions_def sigs10_def client10_body mk_sig_def)
  finally show ?thesis
    using fetch_all_one_pair_per_descriptor[of client10 sigs10] l by simp
qed

section \<open>Properties of the transport\<close>

lemma request_loop_403_step:
  assumes "post \<lparr>p_id = request_id st, p_method = method, p_params = params\<rparr> = Response 403 body"
    and "attempt < retry_count"
  shows "request_loop post key method params retry_count attempt st tr =
     (if attempt = retry_count - 1
      then (Inl auth_failed, st\<lparr>request_id := request_id st + 1\<rparr>,
            tr @ [Post \<lparr>p_id = request_id st, p_method = method, p_params = params\<rparr>])
      else request_loop post key method params retry_count (attempt + 1)
             (st\<lparr>request_id := request_id st + 1\<rparr>)
             (tr @ [Post \<lparr>p_id = request_id st, p_method = method, p_params = params\<rparr>,
                    Sleep (2 ^ attempt)]))"
  using assms by (subst request_loop.simps) (simp add: Let_def)

lemma request_loop_ok_step:
  assumes "post \<lparr>p_id = request_id st, p_method = method, p_params = params\<rparr> = Response 200 (Inr result)"
    and "attempt < retry_count"
  shows "request_loop post key method params retry_count attempt st tr =
     (Inr result,
      (if method = ''getTransaction''
       then st\<lparr>request_id := request_id st + 1,
               transaction_cache := (transaction_cache st)(key \<mapsto> result)\<rparr>
       else st\<lparr>request_id := request_id st + 1\<rparr>),
      tr @ [Post \<lparr>p_id = request_id st, p_method = method, p_params = params\<rparr>])"
  using assms by (subst request_loop.simps) (simp add: Let_def)

text \<open>
  Claim C1 says that a 403 response raises the authentication failure at the first
  attempt, after one request and no sleep. The code raises it inside the \<^verbatim>\<open>try\<close>
  whose \<^verbatim>\<open>except Exception\<close> retries: against a provider that always answers 403, the
  default three attempts are all made, with sleeps of 1 and 2 seconds between them, before
  the failure reaches the caller; and when only the first answer is 403, the call returns
  the second answer and raises nothing.
\<close>

theorem make_request_403_is_retried:
  "make_request dumps0 always_403 ''getAccountInfo'' (JList []) 3 fresh_client =
     (Inl auth_failed,
      \<lparr>request_id = 4, transaction_cache = Map.empty\<rparr>,
      [Acquire,
       Post \<lparr>p_id = 1, p_method = ''getAccountInfo'', p_params = JList []\<rparr>, Sleep 1,
       Post \<lparr>p_id = 2, p_method = ''getAccountInfo'', p_params = JList []\<rparr>, Sleep 2,
       Post \<lparr>p_id = 3, p_method = ''getAccountInfo'', p_params = JList []\<rparr>,
       Release])
   \<and> length (filter is_post
         (snd (snd (make_request dumps0 always_403 ''getAccountInfo'' (JList []) 3 fresh_client)))) = 3
   \<and> sleeps_of
         (snd (snd (make_request dumps0 always_403 ''getAccountInfo'' (JList []) 3 fresh_client))) = [1, 2]
   \<and> fst (make_request dumps0 once_403 ''getAccountInfo'' (JList []) 3 fresh_client) =
       Inr (JDict [(''result'', JStr ''ok'')])"
proof -
  have a: "request_loop always_403 k ''getAccountInfo'' (JList []) 3 0 fresh_client [Acquire] =
     (Inl auth_failed,
      \<lparr>request_id = 4, transaction_cache = Map.empty\<rparr>,
      [Acquire,
       Post \<lparr>p_id = 1, p_method = ''getAccountInfo'', p_params = JList []\<rparr>, Sleep 1,
       Post \<lparr>p_id = 2, p_method = ''getAccountInfo'', p_params = JList []\<rparr>, Sleep 2,
       Post \<lparr>p_id = 3, p_method = ''getAccountInfo'', p_params = JList []\<rparr>])" for k
    apply (subst request_loop_403_step[where body="Inr JNull"], simp add: always_403_def, simp)
    apply (simp add: fresh_client_def)
    apply (subst request_loop_403_step[where body="Inr JNull"], simp add: always_403_def, simp)
    apply simp
    apply (subst request_loop_403_step[where body="Inr JNull"], simp add: always_403_def, simp)
    apply simp
    done
  have b: "fst (request_loop once_403 k ''getAccountInfo'' (JList []) 3 0 fresh_client [Acquire]) =
       Inr (JDict [(''result'', JStr ''ok'')])" for k
    apply (subst request_loop_403_step[where body="Inr JNull"], simp add: once_403_def fresh_client_def, simp)
    apply (simp add: fresh_client_def)
    apply (subst request_loop_ok_step[where result="JDict [(''result'', JStr ''ok'')]"], simp add: once_403_def, simp)
    apply simp
    done
  show ?thesis
    by (simp add: make_request_def a b case_prod_beta Let_def)
qed

text \<open>
  Claim C2, as stated, fails: a \<^verbatim>\<open>getTransaction\<close> call whose key is in the cache does
  return the cached value without a POST and without touching the request-id counter,
  but it takes a slot of the semaphore, because the lookup runs inside
  \<^verbatim>\<open>async with self.semaphore\<close>.
\<close>

theorem cache_hit_holds_semaphore_slot:
  "\<not> (fst (get_transaction dumps0 always_403 ''fake_sig'' cached_client) =
          Inr (JDict [(''result'', JStr ''cached_data'')])
      \<and> filter is_post (snd (snd (get_transaction dumps0 always_403 ''fake_sig'' cached_client))) = []
      \<and> request_id (fst (snd (get_transaction dumps0 always_403 ''fake_sig'' cached_client))) =
          request_id cached_client
      \<and> Acquire \<notin> set (snd (snd (get_transaction dumps0 always_403 ''fake_sig'' cached_client))))"
  by (simp add: get_transaction_def make_request_def cached_client_def)

text \<open>
  Claim C2, amended. For every \<^verbatim>\<open>getTransaction\<close> call whose key is in the cache,
  \<^verbatim>\<open>_make_request\<close> returns the cached value and leaves the request-id counter and
  the cache as they were; it issues no POST and sleeps never; its only effects are taking
  one slot of the semaphore and giving it back.
\<close>

theorem cache_hit_returns_cached_value:
  assumes "method = ''getTransaction''"
    and "transaction_cache st (cache_key dumps method params) = Some cached"
  shows "make_request dumps post method params retry_count st = (Inr cached, st, [Acquire, Release])"
  using assms by (simp add: make_request_def)

theorem cache_hit_returns_cached_value_witness:
  "get_transaction dumps0 always_403 ''fake_sig'' cached_client =
     (Inr (JDict [(''result'', JStr ''cached_data'')]), cached_client, [Acquire, Release])"
  unfolding get_transaction_def
  by (rule cache_hit_returns_cached_value) (simp_all add: cached_client_def)

section \<open>Properties of the normalizer\<close>

lemma parse_instruction_wallets:
  assumes "parse_instruction ts sig slt instruction = Inr (Some r)"
  shows "truthy (wallet_1 r) \<and> truthy (wallet_2 r)"
proof -
  have d: "is_dict instruction"
    using assms by (rule_tac ccontr) (simp add: parse_instruction_def)
  then obtain parsed_info where p: "py_get instruction ''parsed'' (JDict []) = Inr parsed_info"
    by (cases instruction) simp_all
  have a1: "(if \<not> is_dict parsed_info \<or> \<not> truthy parsed_info then Inr None
        else py_bind (py_get parsed_info ''type'' JNull) (\<lambda>tx_type.
          if \<not> is_transfer_type tx_type then Inr None
          else py_bind (py_get parsed_info ''info'' (JDict [])) (\<lambda>info.
            py_bind (py_get info ''source'' JNull) (\<lambda>w1.
            py_bind (py_get info ''destination'' JNull) (\<lambda>w2.
            py_bind (py_get info ''authority'' JNull) (\<lambda>auth.
              if \<not> truthy w1 \<or> \<not> truthy w2 then Inr None
              else py_bind (case info of JDict kvs \<Rightarrow> transfer_amount kvs | _ \<Rightarrow> Inl TypeError)
                (\<lambda>amt. Inr (Some
                   \<lparr>rec_type = tx_type, wallet_1 = w1, wallet_2 = w2, amount = amt,
                    authority = auth, timestamp = ts, tx_signature = sig,
                    block_number = slt, link = ''https://solscan.io/tx/'' @ sig\<rparr>)))))))) = Inr (Some r)"
    using assms d p by (simp add: parse_instruction_def)
  then have pd: "is_dict parsed_info" "truthy parsed_info"
    by (simp_all split: if_splits)
  then obtain tx_type where t: "py_get parsed_info ''type'' JNull = Inr tx_type"
    by (cases parsed_info) simp_all
  have tt: "is_transfer_type tx_type"
    using a1 pd t by (rule_tac ccontr) simp
  obtain info where i: "py_get parsed_info ''info'' (JDict []) = Inr info"
    using pd by (cases parsed_info) simp_all
  have a2: "py_bind (py_get info ''source'' JNull) (\<lambda>w1.
            py_bind (py_get info ''destination'' JNull) (\<lambda>w2.
            py_bind (py_get info ''authority'' JNull) (\<lambda>auth.
              if \<not> truthy w1 \<or> \<not> truthy w2 then Inr None
              else py_bind (case info of JDict kvs \<Rightarrow> transfer_amount kvs | _ \<Rightarrow> Inl TypeError)
                (\<lambda>amt. Inr (Some
                   \<lparr>rec_type = tx_type, wallet_1 = w1, wallet_2 = w2, amount = amt,
                    authority = auth, timestamp = ts, tx_signature = sig,
                    block_number = slt, link = ''https://solscan.io/tx/'' @ sig\<rparr>))))) = Inr (Some r)"
    using a1 pd t tt i by simp
  then obtain w1 w2 auth where w: "py_get info ''source'' JNull = Inr w1"
    "py_get info ''destination'' JNull = Inr w2" "py_get info ''authority'' JNull = Inr auth"
    and a3: "(if \<not> truthy w1 \<or> \<not> truthy w2 then Inr None
              else py_bind (case info of JDict kvs \<Rightarrow> transfer_amount kvs | _ \<Rightarrow> Inl TypeError)
                (\<lambda>amt. Inr (Some
                   \<lparr>rec_type = tx_type, wallet_1 = w1, wallet_2 = w2, amount = amt,
                    authority = auth, timestamp = ts, tx_signature = sig,
                    block_number = slt, link = ''https://solscan.io/tx/'' @ sig\<rparr>))) = Inr (Some r)"
    unfolding py_bind_Inr_iff by blast
  then have tr: "truthy w1" "truthy w2"
    by (simp_all split: if_splits)
  with a3 obtain amt where "r = \<lparr>rec_type = tx_type, wallet_1 = w1, wallet_2 = w2, amount = amt,
                    authority = auth, timestamp = ts, tx_signature = sig,
                    block_number = slt, link = ''https://solscan.io/tx/'' @ sig\<rparr>"
    by (auto simp: py_bind_Inr_iff)
  with tr show ?thesis by simp
qed

lemma parse_transaction_details_cases:
  assumes "parse_transaction_details strftime tx_response sig = Inr recs"
  shows "recs = [] \<or> (\<exists>ts slt instrs. parse_instructions ts (signature sig) slt instrs [] = Inr recs)"
  using assms unfolding parse_transaction_details_def
  by (auto simp: py_bind_Inr_iff Let_def split: option.splits if_splits)

lemma parse_instructions_wallets:
  "parse_instructions ts sig slt instrs acc = Inr recs \<Longrightarrow>
   \<forall>r\<in>set acc. truthy (wallet_1 r) \<and> truthy (wallet_2 r) \<Longrightarrow>
   \<forall>r\<in>set recs. truthy (wallet_1 r) \<and> truthy (wallet_2 r)"
proof (induction instrs arbitrary: acc)
  case Nil
  then show ?case by simp
next
  case (Cons i instrs)
  show ?case
  proof (cases "parse_instruction ts sig slt i")
    case (Inl e)
    with Cons.prems(1) show ?thesis by simp
  next
    case (Inr o1)
    show ?thesis
    proof (cases o1)
      case None
      then have "parse_instructions ts sig slt instrs acc = Inr recs"
        using Cons.prems(1) Inr by simp
      then show ?thesis by (rule Cons.IH) (rule Cons.prems(2))
    next
      case (Some r)
      have w: "truthy (wallet_1 r) \<and> truthy (wallet_2 r)"
        using parse_instruction_wallets[of ts sig slt i r] Inr Some by simp
      have "\<forall>x\<in>set (acc @ [r]). truthy (wallet_1 x) \<and> truthy (wallet_2 x)"
        using Cons.prems(2) w by simp
      moreover have "parse_instructions ts sig slt instrs (acc @ [r]) = Inr recs"
        using Cons.prems(1) Inr Some by simp
      ultimately show ?thesis by (rule Cons.IH[rotated])
    qed
  qed
qed

lemma parse_instruction_skips_missing_wallet:
  assumes "instruction = JDict ikvs"
    and "dict_get ikvs ''parsed'' (JDict []) = JDict p"
    and "dict_get p ''info'' (JDict []) = JDict info"
    and "\<not> truthy (dict_get info ''source'' JNull) \<or> \<not> truthy (dict_get info ''destination'' JNull)"
  shows "parse_instruction ts sig slt instruction = Inr None"
  using assms by (simp add: parse_instruction_def)

lemma parse_instruction_not_transfer:
  assumes "declared_type instruction \<noteq> Some (JStr ''transfer'')"
    and "declared_type instruction \<noteq> Some (JStr ''transferChecked'')"
  shows "parse_instruction ts sig slt instruction = Inr None"
proof (cases instruction)
  case (JDict kvs)
  show ?thesis
  proof (cases "dict_get kvs ''parsed'' (JDict [])")
    case (JDict p)
    note p = this
    show ?thesis
    proof (cases "p = []")
      case True
      then show ?thesis
        using \<open>instruction = JDict kvs\<close> p by (simp add: parse_instruction_def)
    next
      case False
      then have mp: "map_of kvs ''parsed'' = Some (JDict p)"
        using p by (auto simp: dict_get_def split: option.splits)
      have t: "\<not> is_transfer_type (dict_get p ''type'' JNull)"
      proof (cases "map_of p ''type''")
        case None
        then show ?thesis by (simp add: dict_get_def is_transfer_type_def)
      next
        case (Some t)
        then have "declared_type instruction = Some t"
          using \<open>instruction = JDict kvs\<close> mp by (simp add: declared_type_def)
        with assms Some show ?thesis by (auto simp: dict_get_def is_transfer_type_def)
      qed
      show ?thesis
        using \<open>instruction = JDict kvs\<close> p t by (simp add: parse_instruction_def)
    qed
  qed (simp_all add: \<open>instruction = JDict kvs\<close> parse_instruction_def)
qed (simp_all add: parse_instruction_def)

lemma parse_instructions_no_transfer:
  "\<forall>i\<in>set instrs. declared_type i \<noteq> Some (JStr ''transfer'')
       \<and> declared_type i \<noteq> Some (JStr ''transferChecked'') \<Longrightarrow>
   parse_instructions ts sig slt instrs acc = Inr acc"
  by (induction instrs arbitrary: acc) (simp_all add: parse_instruction_not_transfer)

lemma parse_details_no_result:
  assumes "tx_response = None \<or> (\<exists>resp. tx_response = Some resp \<and> \<not> truthy (dict_get resp ''result'' JNull))"
  shows "parse_transaction_details strftime tx_response sig = Inr []"
  using assms by (auto simp: parse_transaction_details_def)

lemma parse_details_result:
  assumes "dict_get resp ''result'' JNull = JDict r" "r \<noteq> []"
    and "truthy (dict_get r ''blockTime'' JNull) \<longrightarrow> strftime (dict_get r ''blockTime'' JNull) = Inr ts"
  shows "parse_transaction_details strftime (Some resp) sig =
     (let ts' = (if truthy (dict_get r ''blockTime'' JNull) then ts else '''');
          transaction_field = dict_get r ''transaction'' JNull in
      if \<not> is_dict transaction_field then Inr []
      else py_bind (py_get transaction_field ''message'' (JDict [])) (\<lambda>message.
             if \<not> is_dict message then Inr []
             else py_bind (py_get message ''instructions'' (JList [])) (\<lambda>instructions.
               py_bind (py_iter instructions) (\<lambda>instrs.
                 parse_instructions ts' (signature sig) (dict_get r ''slot'' (JStr '''')) instrs []))))"
proof -
  have k: "has_key resp ''result''"
    using assms(1) by (auto simp: has_key_def dict_get_def split: option.splits)
  have ne: "resp \<noteq> []" using k by (auto simp: has_key_def)
  show ?thesis
    using assms k ne by (simp add: parse_transaction_details_def Let_def)
qed

lemma parse_details_malformed:
  assumes "dict_get resp ''result'' JNull = JDict r" "r \<noteq> []"
    and "truthy (dict_get r ''blockTime'' JNull) \<longrightarrow> strftime (dict_get r ''blockTime'' JNull) = Inr ts"
    and "\<not> is_dict (dict_get r ''transaction'' JNull)
         \<or> (\<exists>t. dict_get r ''transaction'' JNull = JDict t \<and> \<not> is_dict (dict_get t ''message'' (JDict [])))"
  shows "parse_transaction_details strftime (Some resp) sig = Inr []"
  using assms(4)
    parse_details_result[where strftime = strftime and ts = ts and sig = sig, OF assms(1,2,3)]
  by (auto simp: Let_def)

lemma parse_details_no_transfer:
  assumes "dict_get resp ''result'' JNull = JDict r" "r \<noteq> []"
    and "truthy (dict_get r ''blockTime'' JNull) \<longrightarrow> strftime (dict_get r ''blockTime'' JNull) = Inr ts"
    and "dict_get r ''transaction'' JNull = JDict t"
    and "dict_get t ''message'' (JDict []) = JDict m"
    and "py_iter (dict_get m ''instructions'' (JList [])) = Inr instrs"
    and "\<forall>i\<in>set instrs. declared_type i \<noteq> Some (JStr ''transfer'')
           \<and> declared_type i \<noteq> Some (JStr ''transferChecked'')"
  shows "parse_transaction_details strftime (Some resp) sig = Inr []"
  using assms(4,5,6) parse_instructions_no_transfer[OF assms(7)]
    parse_details_result[where strftime = strftime and ts = ts and sig = sig, OF assms(1,2,3)]
  by (simp add: Let_def)

text \<open>
  Where the normalizer does return the empty list: when the response is None or its
  result is absent or falsy; and, for a result that is a non-empty dictionary whose
  blockTime is absent, falsy or converted by the library without an exception, when the
  transaction member is not a dictionary, when the message member is not a dictionary,
  and when the instructions value is iterable and none of its instructions declares the
  type transfer or transferChecked.
\<close>

lemma normalizer_returns_empty:
  "(tx_response = None
      \<or> (\<exists>resp. tx_response = Some resp \<and> \<not> truthy (dict_get resp ''result'' JNull))
     \<longrightarrow> parse_transaction_details strftime tx_response sig = Inr [])
   \<and> (dict_get resp ''result'' JNull = JDict r \<and> r \<noteq> []
       \<and> (truthy (dict_get r ''blockTime'' JNull)
            \<longrightarrow> strftime (dict_get r ''blockTime'' JNull) = Inr ts)
       \<and> (\<not> is_dict (dict_get r ''transaction'' JNull)
           \<or> (\<exists>t. dict_get r ''transaction'' JNull = JDict t
                  \<and> \<not> is_dict (dict_get t ''message'' (JDict [])))
           \<or> (\<exists>t m instrs. dict_get r ''transaction'' JNull = JDict t
                  \<and> dict_get t ''message'' (JDict []) = JDict m
                  \<and> py_iter (dict_get m ''instructions'' (JList [])) = Inr instrs
                  \<and> (\<forall>i\<in>set instrs. declared_type i \<noteq> Some (JStr ''transfer'')
                        \<and> declared_type i \<noteq> Some (JStr ''transferChecked''))))
     \<longrightarrow> parse_transaction_details strftime (Some resp) sig = Inr [])"
proof (intro conjI impI)
  assume "tx_response = None
      \<or> (\<exists>resp. tx_response = Some resp \<and> \<not> truthy (dict_get resp ''result'' JNull))"
  then show "parse_transaction_details strftime tx_response sig = Inr []"
    by (rule parse_details_no_result)
next
  assume a: "dict_get resp ''result'' JNull = JDict r \<and> r \<noteq> []
       \<and> (truthy (dict_get r ''blockTime'' JNull)
            \<longrightarrow> strftime (dict_get r ''blockTime'' JNull) = Inr ts)
       \<and> (\<not> is_dict (dict_get r ''transaction'' JNull)
           \<or> (\<exists>t. dict_get r ''transaction'' JNull = JDict t
                  \<and> \<not> is_dict (dict_get t ''message'' (JDict [])))
           \<or> (\<exists>t m instrs. dict_get r ''transaction'' JNull = JDict t
                  \<and> dict_get t ''message'' (JDict []) = JDict m
                  \<and> py_iter (dict_get m ''instructions'' (JList [])) = Inr instrs
                  \<and> (\<forall>i\<in>set instrs. declared_type i \<noteq> Some (JStr ''transfer'')
                        \<and> declared_type i \<noteq> Some (JStr ''transferChecked''))))"
  then have b: "dict_get resp ''result'' JNull = JDict r" "r \<noteq> []"
    "truthy (dict_get r ''blockTime'' JNull) \<longrightarrow> strftime (dict_get r ''blockTime'' JNull) = Inr ts"
    by simp_all
  from a consider
    (mal) "\<not> is_dict (dict_get r ''transaction'' JNull)
         \<or> (\<exists>t. dict_get r ''transaction'' JNull = JDict t \<and> \<not> is_dict (dict_get t ''message'' (JDict [])))"
    | (nt) t m instrs where "dict_get r ''transaction'' JNull = JDict t"
        "dict_get t ''message'' (JDict []) = JDict m"
        "py_iter (dict_get m ''instructions'' (JList [])) = Inr instrs"
        "\<forall>i\<in>set instrs. declared_type i \<noteq> Some (JStr ''transfer'')
                        \<and> declared_type i \<noteq> Some (JStr ''transferChecked'')"
    by blast
  then show "parse_transaction_details strftime (Some resp) sig = Inr []"
  proof cases
    case mal
    then show ?thesis
      using parse_details_malformed[where strftime = strftime and ts = ts, OF b(1,2,3)] by blast
  next
    case nt
    then show ?thesis
      using parse_details_no_transfer[where strftime = strftime and ts = ts, OF b(1,2,3)] by blast
  qed
qed

lemma sample_result:
  "dict_get (response_with tf) ''result'' JNull =
     JDict [(''blockTime'', JInt 1672531200), (''slot'', JInt 12345678), (''transaction'', tf)]"
  by (simp add: response_with_def dict_get_def)

lemma normalizer_returns_empty_examples:
  "parse_transaction_details sample_strftime None sample_sig_info = Inr []
   \<and> parse_transaction_details sample_strftime (Some [(''jsonrpc'', JStr ''2.0''), (''result'', JNull)])
        sample_sig_info = Inr []
   \<and> parse_transaction_details sample_strftime (Some (response_with (JStr ''garbage'')))
        sample_sig_info = Inr []
   \<and> parse_transaction_details sample_strftime (Some (response_with (JDict [(''message'', JInt 5)])))
        sample_sig_info = Inr []
   \<and> parse_transaction_details sample_strftime (Some other_type_response) sample_sig_info = Inr []"
proof -
  note T = normalizer_returns_empty[where strftime = sample_strftime and sig = sample_sig_info
      and ts = "''2023-01-01 00:00:00''"]
  have 1: "parse_transaction_details sample_strftime None sample_sig_info = Inr []"
    using T[of None] by simp
  have 2: "parse_transaction_details sample_strftime (Some [(''jsonrpc'', JStr ''2.0''), (''result'', JNull)])
        sample_sig_info = Inr []"
    using T[of "Some [(''jsonrpc'', JStr ''2.0''), (''result'', JNull)]"] by (simp add: dict_get_def)
  have 3: "parse_transaction_details sample_strftime (Some (response_with (JStr ''garbage'')))
        sample_sig_info = Inr []"
    using T[of _ "response_with (JStr ''garbage'')"
        "[(''blockTime'', JInt 1672531200), (''slot'', JInt 12345678), (''transaction'', JStr ''garbage'')]"]
    by (simp add: sample_result) (simp add: dict_get_def sample_strftime_def)
  have 4: "parse_transaction_details sample_strftime (Some (response_with (JDict [(''message'', JInt 5)])))
        sample_sig_info = Inr []"
    using T[of _ "response_with (JDict [(''message'', JInt 5)])"
        "[(''blockTime'', JInt 1672531200), (''slot'', JInt 12345678),
          (''transaction'', JDict [(''message'', JInt 5)])]"]
    by (simp add: sample_result) (simp add: dict_get_def sample_strftime_def)
  have 5: "parse_transaction_details sample_strftime (Some other_type_response) sample_sig_info = Inr []"
    using T[of _ other_type_response
        "[(''blockTime'', JInt 1672531200), (''slot'', JInt 12345678),
          (''transaction'', JDict [(''message'',
             JDict [(''instructions'', JList [sample_instructions ! 1])])])]"]
    by (simp add: other_type_response_def sample_result)
       (simp add: dict_get_def sample_strftime_def declared_type_def sample_instructions_def)
  from 1 2 3 4 5 show ?thesis by blast
qed

text \<open>
  Claim C5 says that the normalizer returns the empty sequence for every response in
  which no instruction declares the type transfer or transferChecked. The code tests
  the transaction member, the message member, every instruction and its
  \<^verbatim>\<open>parsed\<close> member with \<^verbatim>\<open>isinstance(..., dict)\<close> before it reads them, and
  iterates \<^verbatim>\<open>message.get('instructions', [])\<close> with no test: the default covers an
  absent key only. A response whose message holds \<^verbatim>\<open>"instructions": null\<close> has no
  instruction at all, and the normalizer raises TypeError at
  \<^verbatim>\<open>for instruction in instructions\<close> where the claim has it return the empty list.
\<close>

theorem normalizer_raises_on_null_instructions:
  "parse_transaction_details sample_strftime (Some null_instructions_response) sample_sig_info
     = Inl TypeError
   \<and> parse_transaction_details sample_strftime (Some null_instructions_response) sample_sig_info
     \<noteq> Inr []"
  by (simp add: parse_transaction_details_def null_instructions_response_def response_with_def
      has_key_def dict_get_def sample_strftime_def Let_def)

theorem normalizer_raises_on_null_instructions_witness:
  "parse_transaction_details sample_strftime
     (Some [(''jsonrpc'', JStr ''2.0''),
            (''result'', JDict [(''blockTime'', JInt 1672531200), (''slot'', JInt 12345678),
                                (''transaction'',
                                 JDict [(''message'', JDict [(''instructions'', JNull)])])]),
            (''id'', JInt 1)])
     \<lparr>signature = ''dummy_sig_123'', slot = 12345678, blockTime = Some 1672531200\<rparr>
   = Inl TypeError"
  using normalizer_raises_on_null_instructions
  by (simp add: null_instructions_response_def response_with_def sample_sig_info_def)

text \<open>
  What holds of the addresses: every record the normalizer returns has a source and a
  destination that pass Python's truth test, so neither is None nor the empty string;
  and an instruction whose \<^verbatim>\<open>info\<close> member is a dictionary that lacks the source or
  the destination, or holds a falsy one, is skipped: no record, no exception, and the
  loop goes on with the next instruction.
\<close>

lemma normalizer_records_have_both_addresses:
  "(parse_transaction_details strftime tx_response sig = Inr recs \<longrightarrow>
      (\<forall>r\<in>set recs. truthy (wallet_1 r) \<and> truthy (wallet_2 r)
          \<and> wallet_1 r \<noteq> JStr '''' \<and> wallet_2 r \<noteq> JStr ''''
          \<and> wallet_1 r \<noteq> JNull \<and> wallet_2 r \<noteq> JNull))
   \<and> (instruction = JDict ikvs \<and> dict_get ikvs ''parsed'' (JDict []) = JDict p
        \<and> dict_get p ''info'' (JDict []) = JDict info
        \<and> (\<not> truthy (dict_get info ''source'' JNull)
            \<or> \<not> truthy (dict_get info ''destination'' JNull)) \<longrightarrow>
      parse_instruction ts sg slt instruction = Inr None
      \<and> parse_instructions ts sg slt (instruction # rest) acc =
          parse_instructions ts sg slt rest acc)"
proof (rule conjI; rule impI)
  assume a: "parse_transaction_details strftime tx_response sig = Inr recs"
  have "\<forall>r\<in>set recs. truthy (wallet_1 r) \<and> truthy (wallet_2 r)"
    using parse_transaction_details_cases[OF a] parse_instructions_wallets[where acc = "[]"]
    by fastforce
  then show "\<forall>r\<in>set recs. truthy (wallet_1 r) \<and> truthy (wallet_2 r)
          \<and> wallet_1 r \<noteq> JStr '''' \<and> wallet_2 r \<noteq> JStr ''''
          \<and> wallet_1 r \<noteq> JNull \<and> wallet_2 r \<noteq> JNull"
    by fastforce
next
  assume b: "instruction = JDict ikvs \<and> dict_get ikvs ''parsed'' (JDict []) = JDict p
        \<and> dict_get p ''info'' (JDict []) = JDict info
        \<and> (\<not> truthy (dict_get info ''source'' JNull)
            \<or> \<not> truthy (dict_get info ''destination'' JNull))"
  then have s: "parse_instruction ts sg slt instruction = Inr None"
    using parse_instruction_skips_missing_wallet[of instruction ikvs p info] by blast
  then show "parse_instruction ts sg slt instruction = Inr None
      \<and> parse_instructions ts sg slt (instruction # rest) acc =
          parse_instructions ts sg slt rest acc"
    by simp
qed

lemma sample_parse:
  "parse_transaction_details sample_strftime (Some sample_tx_response) sample_sig_info =
      Inr [\<lparr>rec_type = JStr ''transferChecked'', wallet_1 = JStr ''SourceWallet'',
            wallet_2 = JStr ''DestinationWallet'', amount = As_given (JStr ''123.45''),
            authority = JStr ''AuthorityWallet'', timestamp = ''2023-01-01 00:00:00'',
            tx_signature = ''dummy_sig_123'', block_number = JInt 12345678,
            link = ''https://solscan.io/tx/dummy_sig_123''\<rparr>]"
  by (simp add: parse_transaction_details_def sample_tx_response_def response_with_def
      has_key_def dict_get_def sample_strftime_def Let_def sample_instructions_def
      parse_instruction_def is_transfer_type_def transfer_amount_def sample_sig_info_def)

lemma normalizer_records_have_both_addresses_example:
  "parse_transaction_details sample_strftime (Some sample_tx_response) sample_sig_info =
      Inr [\<lparr>rec_type = JStr ''transferChecked'', wallet_1 = JStr ''SourceWallet'',
            wallet_2 = JStr ''DestinationWallet'', amount = As_given (JStr ''123.45''),
            authority = JStr ''AuthorityWallet'', timestamp = ''2023-01-01 00:00:00'',
            tx_signature = ''dummy_sig_123'', block_number = JInt 12345678,
            link = ''https://solscan.io/tx/dummy_sig_123''\<rparr>]
   \<and> parse_instruction ''t'' ''s'' (JInt 1) (sample_instructions ! 2) = Inr None
   \<and> parse_instructions ''t'' ''s'' (JInt 1) [sample_instructions ! 2] [] = Inr []"
  using normalizer_records_have_both_addresses[of sample_strftime "Some sample_tx_response"
      sample_sig_info _ "sample_instructions ! 2"
      "[(''parsed'', JDict [(''type'', JStr ''transfer''),
                                 (''info'', JDict [(''source'', JStr ''SourceWallet''),
                                                   (''lamports'', JInt 5000)])])]"
      "[(''type'', JStr ''transfer''),
                                 (''info'', JDict [(''source'', JStr ''SourceWallet''),
                                                   (''lamports'', JInt 5000)])]"
      "[(''source'', JStr ''SourceWallet''), (''lamports'', JInt 5000)]"
      "''t''" "''s''" "JInt 1" "[]" "[]"]
  by (simp add: sample_parse) (simp add: sample_instructions_def dict_get_def)

text \<open>
  Claim C6 says that an instruction missing the source or the destination is skipped
  without a record and without an error. The code tests the instruction and its
  \<^verbatim>\<open>parsed\<close> member with \<^verbatim>\<open>isinstance(..., dict)\<close> and skips what fails the
  test, and then calls \<^verbatim>\<open>info.get('source')\<close> on
  \<^verbatim>\<open>parsed_info.get('info', {})\<close> with no test: the default covers an absent key
  only. A transfer instruction with \<^verbatim>\<open>"info": null\<close> has neither address, and the
  code raises AttributeError on it. The exception leaves the normalizer, so the record of
  the transfer before it in the same transaction is lost, where skipping the instruction
  gives that record as for the transaction without it; and it ends the loop over the
  fetched transactions, so that the transactions after it are not parsed.
\<close>

theorem normalizer_raises_on_null_info:
  "parse_instruction ''2023-01-01 00:00:00'' ''dummy_sig_123'' (JInt 12345678) null_info_instruction
     = Inl AttributeError
   \<and> parse_transaction_details sample_strftime (Some null_info_response) sample_sig_info
     = Inl AttributeError
   \<and> parse_transaction_details sample_strftime (Some first_transfer_response) sample_sig_info
     = Inr [\<lparr>rec_type = JStr ''transferChecked'', wallet_1 = JStr ''SourceWallet'',
             wallet_2 = JStr ''DestinationWallet'', amount = As_given (JStr ''123.45''),
             authority = JStr ''AuthorityWallet'', timestamp = ''2023-01-01 00:00:00'',
             tx_signature = ''dummy_sig_123'', block_number = JInt 12345678,
             link = ''https://solscan.io/tx/dummy_sig_123''\<rparr>]
   \<and> parse_pairs sample_strftime
       [(sample_sig_info, Some null_info_response),
        (sample_sig_info, Some first_transfer_response)] []
     = ([], Some AttributeError)"
proof -
  have 1: "parse_instruction ts sg slt null_info_instruction = Inl AttributeError" for ts sg slt
    by (simp add: parse_instruction_def null_info_instruction_def dict_get_def is_transfer_type_def)
  have 2: "parse_instruction ''2023-01-01 00:00:00'' ''dummy_sig_123'' (JInt 12345678)
        (sample_instructions ! 0) =
      Inr (Some \<lparr>rec_type = JStr ''transferChecked'', wallet_1 = JStr ''SourceWallet'',
             wallet_2 = JStr ''DestinationWallet'', amount = As_given (JStr ''123.45''),
             authority = JStr ''AuthorityWallet'', timestamp = ''2023-01-01 00:00:00'',
             tx_signature = ''dummy_sig_123'', block_number = JInt 12345678,
             link = ''https://solscan.io/tx/dummy_sig_123''\<rparr>)"
    by (simp add: parse_instruction_def sample_instructions_def dict_get_def is_transfer_type_def
        transfer_amount_def has_key_def)
  have 3: "parse_transaction_details sample_strftime (Some null_info_response) sample_sig_info
     = Inl AttributeError"
    by (simp add: parse_transaction_details_def null_info_response_def response_with_def
        has_key_def dict_get_def sample_strftime_def Let_def sample_sig_info_def 1 2)
  have 4: "parse_transaction_details sample_strftime (Some first_transfer_response) sample_sig_info
     = Inr [\<lparr>rec_type = JStr ''transferChecked'', wallet_1 = JStr ''SourceWallet'',
             wallet_2 = JStr ''DestinationWallet'', amount = As_given (JStr ''123.45''),
             authority = JStr ''AuthorityWallet'', timestamp = ''2023-01-01 00:00:00'',
             tx_signature = ''dummy_sig_123'', block_number = JInt 12345678,
             link = ''https://solscan.io/tx/dummy_sig_123''\<rparr>]"
    by (simp add: parse_transaction_details_def first_transfer_response_def response_with_def
        has_key_def dict_get_def sample_strftime_def Let_def sample_sig_info_def 2)
  have 5: "parse_pairs sample_strftime
       [(sample_sig_info, Some null_info_response),
        (sample_sig_info, Some first_transfer_response)] []
     = ([], Some AttributeError)"
    by (simp add: 3)
  from 1 3 4 5 show ?thesis by blast
qed

theorem normalizer_raises_on_null_info_witness:
  "parse_transaction_details sample_strftime
     (Some [(''jsonrpc'', JStr ''2.0''),
            (''result'',
             JDict [(''blockTime'', JInt 1672531200), (''slot'', JInt 12345678),
                    (''transaction'',
                     JDict [(''message'',
                       JDict [(''instructions'',
                         JList [JDict [(''parsed'',
                                        JDict [(''type'', JStr ''transferChecked''),
                                               (''info'',
                                                JDict [(''source'', JStr ''SourceWallet''),
                                                       (''destination'', JStr ''DestinationWallet''),
                                                       (''authority'', JStr ''AuthorityWallet''),
                                                       (''tokenAmount'',
                                                        JDict [(''uiAmountString'', JStr ''123.45'')])])]),
                                       (''program'', JStr ''spl-token'')],
                                JDict [(''parsed'',
                                        JDict [(''type'', JStr ''transfer''),
                                               (''info'', JNull)])]])])])]),
            (''id'', JInt 1)])
     \<lparr>signature = ''dummy_sig_123'', slot = 12345678, blockTime = Some 1672531200\<rparr>
   = Inl AttributeError"
  using normalizer_raises_on_null_info
  by (simp add: null_info_response_def null_info_instruction_def response_with_def
      sample_sig_info_def sample_instructions_def)

section \<open>Properties of the since-marker scan\<close>

lemma scan_page_raises:
  "client (Some 1000) before = Inl e \<Longrightarrow>
   since_marker_scan client last_signature (Suc n) before newest new = Inl e"
  by simp

lemma scan_page_unusable:
  "client (Some 1000) before = Inr response \<Longrightarrow> page_unusable response \<Longrightarrow>
   since_marker_scan client last_signature (Suc n) before newest new = Inr (new, newest)"
  by simp

lemma collect_new_marker_first:
  "batch \<noteq> [] \<Longrightarrow> Some (signature (hd batch)) = last_signature \<Longrightarrow>
   collect_new last_signature batch new = (new, True)"
  by (cases batch) simp_all

lemma scan_page_marker_first:
  "client (Some 1000) before = Inr response \<Longrightarrow> \<not> page_unusable response \<Longrightarrow>
   Some (signature (hd (batch_of response))) = last_signature \<Longrightarrow>
   since_marker_scan client last_signature (Suc n) before newest new =
     Inr (new, track_newest newest (batch_of response))"
  by (simp add: page_unusable_def collect_new_marker_first)

lemma scan_first_page_raises:
  "client (Some 1000) None = Inl e \<Longrightarrow>
   since_marker_scan client last_signature 10 None None [] = Inl e"
  using scan_page_raises[of client None e last_signature 9 None "[]"] by simp

lemma scan_first_page_unusable:
  "client (Some 1000) None = Inr response \<Longrightarrow> page_unusable response \<Longrightarrow>
   since_marker_scan client last_signature 10 None None [] = Inr ([], None)"
  using scan_page_unusable[of client None response last_signature 9 None "[]"] by simp

lemma scan_marker_is_newest:
  "client (Some 1000) None = Inr response \<Longrightarrow> \<not> page_unusable response \<Longrightarrow>
   Some (signature (hd (batch_of response))) = last_signature \<Longrightarrow>
   since_marker_scan client last_signature 10 None None [] =
     Inr ([], Some (signature (hd (batch_of response))))"
  using scan_page_marker_first[of client None response last_signature 9 None "[]"]
  by (simp add: track_newest_def)

lemma new_transactions_nothing_new:
  "since_marker_scan client last_signature 10 None None [] = Inr ([], newest) \<Longrightarrow>
   fetch_and_parse_new_transactions strftime client tx last_signature = ([], last_signature)"
  by (simp add: fetch_and_parse_new_transactions_def)

lemma new_transactions_scan_raises:
  "since_marker_scan client last_signature 10 None None [] = Inl e \<Longrightarrow>
   fetch_and_parse_new_transactions strftime client tx last_signature = ([], last_signature)"
  by (simp add: fetch_and_parse_new_transactions_def)

lemma new_transactions_changed:
  assumes "fetch_and_parse_new_transactions strftime client tx last_signature \<noteq> ([], last_signature)"
  shows "\<exists>new newest. since_marker_scan client last_signature 10 None None [] = Inr (new, newest)
           \<and> new \<noteq> []
           \<and> fetch_and_parse_new_transactions strftime client tx last_signature =
               (fst (parse_pairs strftime (fetch_all tx new) []), newest)"
  using assms
  by (auto simp: fetch_and_parse_new_transactions_def split: sum.splits prod.splits if_splits option.splits)

text \<open>
  Claim C10. When the first page begins with the marker, when the first page is empty or
  carries an error, when the scan raises, when the scan collects nothing, and when an
  exception ends the parsing, \<^verbatim>\<open>fetch_and_parse_new_transactions\<close> returns the empty
  list and the marker it was given. Whenever it returns anything else, the scan has
  collected at least one new signature.
\<close>

theorem marker_kept_unless_new_signatures:
  "(client (Some 1000) None = Inr response \<and> \<not> page_unusable response
      \<and> Some (signature (hd (batch_of response))) = last_signature
     \<longrightarrow> fetch_and_parse_new_transactions strftime client tx last_signature = ([], last_signature))
   \<and> (client (Some 1000) None = Inr response \<and> page_unusable response
     \<longrightarrow> fetch_and_parse_new_transactions strftime client tx last_signature = ([], last_signature))
   \<and> (since_marker_scan client last_signature 10 None None [] = Inl e
     \<longrightarrow> fetch_and_parse_new_transactions strftime client tx last_signature = ([], last_signature))
   \<and> (since_marker_scan client last_signature 10 None None [] = Inr ([], newest)
     \<longrightarrow> fetch_and_parse_new_transactions strftime client tx last_signature = ([], last_signature))
   \<and> (since_marker_scan client last_signature 10 None None [] = Inr (new, newest)
       \<and> snd (parse_pairs strftime (fetch_all tx new) []) \<noteq> None
     \<longrightarrow> fetch_and_parse_new_transactions strftime client tx last_signature = ([], last_signature))
   \<and> (fetch_and_parse_new_transactions strftime client tx last_signature \<noteq> ([], last_signature)
     \<longrightarrow> (\<exists>new newest. since_marker_scan client last_signature 10 None None [] = Inr (new, newest)
           \<and> new \<noteq> []))"
proof -
  have 1: "client (Some 1000) None = Inr response \<and> \<not> page_unusable response
      \<and> Some (signature (hd (batch_of response))) = last_signature
     \<longrightarrow> fetch_and_parse_new_transactions strftime client tx last_signature = ([], last_signature)"
    using scan_marker_is_newest[of client response last_signature] new_transactions_nothing_new
    by blast
  have 2: "client (Some 1000) None = Inr response \<and> page_unusable response
     \<longrightarrow> fetch_and_parse_new_transactions strftime client tx last_signature = ([], last_signature)"
    using scan_first_page_unusable[of client response last_signature] new_transactions_nothing_new
    by blast
  have 3: "since_marker_scan client last_signature 10 None None [] = Inl e
     \<longrightarrow> fetch_and_parse_new_transactions strftime client tx last_signature = ([], last_signature)"
    using new_transactions_scan_raises by blast
  have 4: "since_marker_scan client last_signature 10 None None [] = Inr ([], newest)
     \<longrightarrow> fetch_and_parse_new_transactions strftime client tx last_signature = ([], last_signature)"
    using new_transactions_nothing_new by blast
  have 5: "since_marker_scan client last_signature 10 None None [] = Inr (new, newest)
       \<and> snd (parse_pairs strftime (fetch_all tx new) []) \<noteq> None
     \<longrightarrow> fetch_and_parse_new_transactions strftime client tx last_signature = ([], last_signature)"
    by (auto simp: fetch_and_parse_new_transactions_def split: prod.splits option.splits)
  have 6: "fetch_and_parse_new_transactions strftime client tx last_signature \<noteq> ([], last_signature)
     \<longrightarrow> (\<exists>new newest. since_marker_scan client last_signature 10 None None [] = Inr (new, newest)
           \<and> new \<noteq> [])"
    using new_transactions_changed[of strftime client tx last_signature] by blast
  from 1 2 3 4 5 6 show ?thesis by blast
qed

lemma history_first_page:
  "length hist < 1000 \<Longrightarrow>
   history_client hist (Some 1000) None = Inr \<lparr>resp_error = False, resp_result = Some hist\<rparr>"
  by (simp add: history_client_def after_cursor_def)

theorem marker_kept_unless_new_signatures_witness:
  "fetch_and_parse_new_transactions sample_strftime (history_client [desc_a, desc_b]) client10
      (Some ''sigA'') = ([], Some ''sigA'')
   \<and> fetch_and_parse_new_transactions sample_strftime (history_client []) client10
      (Some ''sigA'') = ([], Some ''sigA'')
   \<and> fetch_and_parse_new_transactions sample_strftime failing_client client10
      (Some ''sigA'') = ([], Some ''sigA'')"
proof -
  have a: "fetch_and_parse_new_transactions sample_strftime (history_client [desc_a, desc_b]) client10
      (Some ''sigA'') = ([], Some ''sigA'')"
    using marker_kept_unless_new_signatures[of "history_client [desc_a, desc_b]"
        "\<lparr>resp_error = False, resp_result = Some [desc_a, desc_b]\<rparr>" "Some ''sigA''"
        sample_strftime client10]
    by (simp add: history_first_page page_unusable_def batch_of_def desc_a_def)
  have b: "fetch_and_parse_new_transactions sample_strftime (history_client []) client10
      (Some ''sigA'') = ([], Some ''sigA'')"
    using marker_kept_unless_new_signatures[of "history_client []"
        "\<lparr>resp_error = False, resp_result = Some []\<rparr>" "Some ''sigA''"
        sample_strftime client10]
    by (simp add: history_first_page page_unusable_def batch_of_def)
  have c: "fetch_and_parse_new_transactions sample_strftime failing_client client10
      (Some ''sigA'') = ([], Some ''sigA'')"
    using marker_kept_unless_new_signatures[where client = failing_client
        and last_signature = "Some ''sigA''" and e = "Exception ''connection reset''"
        and strftime = sample_strftime and tx = client10]
      scan_first_page_raises[of failing_client "Exception ''connection reset''" "Some ''sigA''"]
    by (simp add: failing_client_def)
  from a b c show ?thesis by blast
qed

section \<open>Properties of the block-range scan\<close>

lemma history_page_short:
  "length hist < 1000 \<Longrightarrow>
   history_client hist (Some 1000) None = Inr \<lparr>resp_error = False, resp_result = Some hist\<rparr>"
  by (simp add: history_client_def after_cursor_def)

text \<open>
  With two bounds that are not 0, the page loop keeps only descriptors whose slot lies
  between them.
\<close>

lemma block_range_page_nonzero_bounds:
  assumes "s \<noteq> 0" "e \<noteq> 0"
  shows "\<forall>d\<in>set acc. s \<le> slot d \<and> slot d \<le> e \<Longrightarrow>
     \<forall>d\<in>set (fst (block_range_page (Some s) (Some e) batch acc)). s \<le> slot d \<and> slot d \<le> e"
proof (induction batch arbitrary: acc)
  case Nil
  then show ?case by simp
next
  case (Cons b batch)
  show ?case
  proof (cases "e < slot b")
    case True
    then have "block_range_page (Some s) (Some e) (b # batch) acc =
        block_range_page (Some s) (Some e) batch acc"
      using assms by (simp add: above_end_def)
    moreover have "\<forall>d\<in>set (fst (block_range_page (Some s) (Some e) batch acc)).
        s \<le> slot d \<and> slot d \<le> e"
      using Cons.prems by (rule Cons.IH)
    ultimately show ?thesis by simp
  next
    case False
    show ?thesis
    proof (cases "slot b < s")
      case True
      then have "block_range_page (Some s) (Some e) (b # batch) acc = (acc, True)"
        using False assms by (simp add: above_end_def below_start_def)
      then show ?thesis using Cons.prems by simp
    next
      case inside: False
      have "\<forall>d\<in>set (acc @ [b]). s \<le> slot d \<and> slot d \<le> e"
        using Cons.prems False inside by auto
      then have "\<forall>d\<in>set (fst (block_range_page (Some s) (Some e) batch (acc @ [b]))).
          s \<le> slot d \<and> slot d \<le> e"
        by (rule Cons.IH)
      moreover have "block_range_page (Some s) (Some e) (b # batch) acc =
          block_range_page (Some s) (Some e) batch (acc @ [b])"
        using False inside assms by (simp add: above_end_def below_start_def)
      ultimately show ?thesis by simp
    qed
  qed
qed

text \<open>
  Claim C7 says that a descriptor is kept only if its slot lies between startBlock and
  endBlock, the boundary value 0 included. The code tests the bounds with
  \<^verbatim>\<open>if end_block and ...\<close>, \<^verbatim>\<open>if start_block and ...\<close> and
  \<^verbatim>\<open>elif start_block or end_block\<close>, and 0 is falsy. With both bounds 0 the block-range
  mode is not entered at all and the newest signatures are returned whatever their slots;
  with startBlock 150 and endBlock 0 the upper bound is not applied and a descriptor of
  slot 200 is kept.
\<close>

theorem block_bound_zero_is_ignored:
  "discover_signatures (history_client [desc_a, desc_b]) (Some 100) (Some 0) (Some 0) None None
     = Inr [desc_a, desc_b]
   \<and> discover_signatures (history_client [desc_a, desc_b]) (Some 100) (Some 150) (Some 0) None None
     = Inr [desc_a]
   \<and> slot desc_a = 200 \<and> slot desc_b = 100"
proof -
  have 1: "discover_signatures (history_client [desc_a, desc_b]) (Some 100) (Some 0) (Some 0) None None
     = Inr [desc_a, desc_b]"
    by (simp add: discover_signatures_def opt_truthy_def history_client_def after_cursor_def
        page_unusable_def batch_of_def)
  have 2: "block_range_scan (history_client [desc_a, desc_b]) (Some 150) (Some 0) None 0 [] = Inr [desc_a]"
    by (subst block_range_scan.simps)
       (simp add: history_page_short page_unusable_def batch_of_def above_end_def below_start_def
          desc_a_def desc_b_def)
  show ?thesis
    using 1 2 by (simp add: discover_signatures_def opt_truthy_def desc_a_def desc_b_def)
qed

section \<open>Properties of the date-range scan\<close>

lemma dropWhile_distinct_nth:
  "distinct (map f xs) \<Longrightarrow> i < length xs \<Longrightarrow>
   dropWhile (\<lambda>d. f d \<noteq> f (xs ! i)) xs = drop i xs"
proof (induction xs arbitrary: i)
  case Nil
  then show ?case by simp
next
  case (Cons x xs)
  show ?case
  proof (cases i)
    case 0
    then show ?thesis by simp
  next
    case (Suc j)
    then have j: "j < length xs" using Cons.prems(2) by simp
    then have "xs ! j \<in> set xs" by simp
    then have "f x \<noteq> f (xs ! j)" using Cons.prems(1) by auto
    then show ?thesis using Suc Cons.IH[of j] Cons.prems(1) j by simp
  qed
qed

lemma after_cursor_at:
  assumes "distinct (map signature hist)" "\<forall>d\<in>set hist. signature d \<noteq> []" "p \<le> length hist"
  shows "after_cursor (cursor_at hist p) hist = drop p hist"
proof (cases "p = 0")
  case True
  then show ?thesis by (simp add: after_cursor_def cursor_at_def)
next
  case False
  then have i: "p - 1 < length hist" using assms(3) by simp
  then have ne: "signature (hist ! (p - 1)) \<noteq> []" using assms(2) by simp
  have "dropWhile (\<lambda>d. signature d \<noteq> signature (hist ! (p - 1))) hist = drop (p - 1) hist"
    using dropWhile_distinct_nth[OF assms(1) i] .
  then show ?thesis using False ne by (simp add: after_cursor_def cursor_at_def)
qed

lemma history_page:
  assumes "distinct (map signature hist)" "\<forall>d\<in>set hist. signature d \<noteq> []" "p \<le> length hist"
  shows "history_client hist (Some 1000) (cursor_at hist p) =
     Inr \<lparr>resp_error = False, resp_result = Some (take 1000 (drop p hist))\<rparr>"
  using after_cursor_at[OF assms] by (simp add: history_client_def)

lemma older_not_in_range:
  assumes "newest_first hist" "j < length hist" "predates start_ts (hist ! j)"
  shows "filter (time_in_range start_ts end_ts) (drop (Suc j) hist) = []"
proof -
  have "\<not> time_in_range start_ts end_ts d" if "d \<in> set (drop (Suc j) hist)" for d
  proof -
    from that obtain k where k: "k < length (drop (Suc j) hist)" "d = drop (Suc j) hist ! k"
      by (auto simp: in_set_conv_nth)
    then have d: "d = hist ! (Suc j + k)" and l: "Suc j + k < length hist" by simp_all
    have "case (blockTime (hist ! j), blockTime (hist ! (Suc j + k))) of
            (Some ta, Some tb) \<Rightarrow> tb \<le> ta | _ \<Rightarrow> True"
      using assms(1) l sorted_wrt_nth_less[of _ hist j "Suc j + k"]
      unfolding newest_first_def by simp
    then show ?thesis
      using assms(3) d by (auto simp: predates_def time_in_range_def split: option.splits)
  qed
  then show ?thesis by (simp add: filter_empty_conv)
qed

lemma date_range_scan_history:
  assumes d: "distinct (map signature hist)" and ne: "\<forall>d\<in>set hist. signature d \<noteq> []"
    and nf: "newest_first hist"
  shows "n \<le> 20 \<Longrightarrow> 1000 * n \<le> length hist \<Longrightarrow>
     date_range_scan (history_client hist) start_ts end_ts (cursor_at hist (1000 * n)) (1000 * n) acc =
       Inr (acc @ filter (time_in_range start_ts end_ts) (take (20000 - 1000 * n) (drop (1000 * n) hist)))"
proof (induction "20 - n" arbitrary: n acc)
  case 0
  then have "n = 20" by simp
  then show ?case by (subst date_range_scan.simps) simp
next
  case (Suc m)
  define p where "p = 1000 * n"
  define batch where "batch = take 1000 (drop p hist)"
  have n: "n < 20" using Suc.hyps(2) by simp
  then have p: "p < 20000" "p \<le> length hist" using Suc.prems(2) by (simp_all add: p_def)
  have page: "history_client hist (Some 1000) (cursor_at hist p) =
     Inr \<lparr>resp_error = False, resp_result = Some batch\<rparr>"
    using history_page[OF d ne p(2)] by (simp add: batch_def)
  have split: "take (20000 - p) (drop p hist) = batch @ take (19000 - p) (drop (1000 + p) hist)"
  proof -
    have "20000 - p = 1000 + (19000 - p)" using n by (simp add: p_def)
    then have "take (20000 - p) (drop p hist) =
        take 1000 (drop p hist) @ take (19000 - p) (drop 1000 (drop p hist))"
      by (simp only: take_add)
    then show ?thesis by (simp add: batch_def)
  qed
  show ?case
  proof (cases "batch = []")
    case True
    then have "drop p hist = []" using p by (auto simp: batch_def)
    then show ?thesis
      using p page True
      by (subst date_range_scan.simps) (simp add: p_def[symmetric] page_unusable_def batch_of_def)
  next
    case False
    have bl: "0 < length batch" "length batch \<le> 1000" "p + length batch \<le> length hist"
      using False by (auto simp: batch_def)
    have "last batch = batch ! (length batch - 1)"
      using False by (rule last_conv_nth)
    also have "\<dots> = drop p hist ! (length batch - 1)"
      unfolding batch_def using bl(1,2) by (simp add: batch_def)
    also have "\<dots> = hist ! (p + (length batch - 1))"
      using p(2) by simp
    finally have lb: "last batch = hist ! (p + length batch - 1)"
      using bl(1) by simp
    have jl: "p + length batch - 1 < length hist" using False by (auto simp: batch_def)
    show ?thesis
    proof (cases "predates start_ts (last batch)")
      case True
      have "Suc (p + length batch - 1) = p + length batch" using bl(1) by simp
      then have "drop (1000 + p) hist = drop (1000 - length batch) (drop (Suc (p + length batch - 1)) hist)"
        using bl(2) by simp
      moreover have "filter (time_in_range start_ts end_ts) (drop (Suc (p + length batch - 1)) hist) = []"
        using older_not_in_range[OF nf jl] True lb by simp
      ultimately have "filter (time_in_range start_ts end_ts) (take (19000 - p) (drop (1000 + p) hist)) = []"
        by (metis (no_types, lifting) filter_empty_conv in_set_dropD in_set_takeD)
      then show ?thesis
        using p page False True split
        by (subst date_range_scan.simps) (simp add: p_def[symmetric] page_unusable_def batch_of_def)
    next
      case np: False
      show ?thesis
      proof (cases "length batch < 1000")
        case True
        then have "drop (1000 + p) hist = []" by (auto simp: batch_def)
        then show ?thesis
          using p page False np True split
          by (subst date_range_scan.simps) (simp add: p_def[symmetric] page_unusable_def batch_of_def)
      next
        case full: False
        then have len: "length batch = 1000" by (simp add: batch_def)
        then have pl: "1000 * Suc n \<le> length hist" by (simp add: batch_def p_def)
        have c: "cursor_at hist (1000 + p) = Some (signature (last batch))"
          using lb len by (simp add: cursor_at_def add.commute[of p 1000])
        have m: "m = 20 - Suc n" using Suc.hyps(2) by simp
        have e1: "1000 * Suc n = 1000 + p" "20000 - 1000 * Suc n = 19000 - p"
          by (simp_all add: p_def)
        have ih: "date_range_scan (history_client hist) start_ts end_ts (Some (signature (last batch)))
            (1000 + p) (acc @ filter (time_in_range start_ts end_ts) batch) =
          Inr ((acc @ filter (time_in_range start_ts end_ts) batch) @
               filter (time_in_range start_ts end_ts) (take (19000 - p) (drop (1000 + p) hist)))"
          using Suc.hyps(1)[OF m _ pl, of "acc @ filter (time_in_range start_ts end_ts) batch"] n
          unfolding e1 c by simp
        show ?thesis
          using p page False np full len split ih
          by (subst date_range_scan.simps)
             (simp add: p_def[symmetric] page_unusable_def batch_of_def add.commute[of p 1000])
      qed
    qed
  qed
qed


text \<open>
  The three stops of the date-range scan. A usable page whose oldest descriptor predates
  the start, or that is shorter than 1000, is the last one: its descriptors in range are
  added and the scan returns whatever the client would answer next. With 20000
  descriptors scanned the scan returns without a request.
\<close>

lemma date_range_scan_stops:
  "fetched_count < 20000 \<Longrightarrow> client (Some 1000) before_sig = Inr response \<Longrightarrow>
   \<not> page_unusable response \<Longrightarrow>
   predates start_ts (last (batch_of response)) \<or> length (batch_of response) < 1000 \<Longrightarrow>
   date_range_scan client start_ts end_ts before_sig fetched_count signatures =
     Inr (signatures @ filter (time_in_range start_ts end_ts) (batch_of response))"
  "20000 \<le> fetched_count \<Longrightarrow>
   date_range_scan client start_ts end_ts before_sig fetched_count signatures = Inr signatures"
  by (subst date_range_scan.simps, auto)+

lemma in_range_after_epoch:
  "0 < start_ts \<Longrightarrow> time_in_range start_ts end_ts d = confirmed_within start_ts end_ts d"
  by (auto simp: time_in_range_def confirmed_within_def split: option.splits)

text \<open>
  What the scan does return: for a history that is newest first, with distinct and
  non-empty signatures, served in pages of 1000, the descriptors among the first 20000
  that pass the test of the code, in the order of the history, wherever the page
  boundaries fall. When the history has at most 20000 descriptors and the range starts
  after time 0, these are exactly the descriptors whose confirmation time lies in the
  range.
\<close>

lemma date_range_returns_descriptors_in_range:
  "distinct (map signature hist) \<and> (\<forall>d\<in>set hist. signature d \<noteq> []) \<and> newest_first hist
   \<longrightarrow>
     discover_signatures (history_client hist) limit start_block end_block
         (Some start_ts) (Some end_ts) =
       Inr (filter (time_in_range start_ts end_ts) (take 20000 hist))
     \<and> (length hist \<le> 20000 \<and> 0 < start_ts \<longrightarrow>
          discover_signatures (history_client hist) limit start_block end_block
              (Some start_ts) (Some end_ts) =
            Inr (filter (confirmed_within start_ts end_ts) hist))"
proof (rule impI)
  assume a: "distinct (map signature hist) \<and> (\<forall>d\<in>set hist. signature d \<noteq> []) \<and> newest_first hist"
  have "date_range_scan (history_client hist) start_ts end_ts (cursor_at hist (1000 * 0)) (1000 * 0) [] =
       Inr ([] @ filter (time_in_range start_ts end_ts) (take (20000 - 1000 * 0) (drop (1000 * 0) hist)))"
    using a by (intro date_range_scan_history) simp_all
  then have 1: "discover_signatures (history_client hist) limit start_block end_block
         (Some start_ts) (Some end_ts) =
       Inr (filter (time_in_range start_ts end_ts) (take 20000 hist))"
    by (simp add: discover_signatures_def cursor_at_def)
  have 2: "length hist \<le> 20000 \<and> 0 < start_ts \<longrightarrow>
          discover_signatures (history_client hist) limit start_block end_block
              (Some start_ts) (Some end_ts) =
            Inr (filter (confirmed_within start_ts end_ts) hist)"
    using 1 by (auto simp: in_range_after_epoch cong: filter_cong)
  from 1 2 show "discover_signatures (history_client hist) limit start_block end_block
         (Some start_ts) (Some end_ts) =
       Inr (filter (time_in_range start_ts end_ts) (take 20000 hist))
     \<and> (length hist \<le> 20000 \<and> 0 < start_ts \<longrightarrow>
          discover_signatures (history_client hist) limit start_block end_block
              (Some start_ts) (Some end_ts) =
            Inr (filter (confirmed_within start_ts end_ts) hist))"
    by blast
qed

lemma date_range_returns_descriptors_in_range_example:
  "discover_signatures (history_client [desc_a, desc_b]) (Some 100) None None
      (Some 1700000150) (Some 1700000200) = Inr [desc_a]
   \<and> discover_signatures (history_client [desc_a, desc_b]) (Some 100) None None
      (Some 1700000100) (Some 1700000200) = Inr [desc_a, desc_b]"
proof -
  have h: "distinct (map signature [desc_a, desc_b]) \<and> (\<forall>d\<in>set [desc_a, desc_b]. signature d \<noteq> [])
      \<and> newest_first [desc_a, desc_b]"
    by (simp add: desc_a_def desc_b_def newest_first_def)
  show ?thesis
    using date_range_returns_descriptors_in_range[of "[desc_a, desc_b]" "Some 100" None None
        1700000150 1700000200]
      date_range_returns_descriptors_in_range[of "[desc_a, desc_b]" "Some 100" None None
        1700000100 1700000200] h
    by (simp add: confirmed_within_def time_in_range_def desc_a_def desc_b_def)
qed

text \<open>
  Claim C3 says that the date-range discovery returns exactly the descriptors whose
  confirmation time lies in the closed range. The code keeps a descriptor under
  \<^verbatim>\<open>if block_time and start_ts <= block_time <= end_ts\<close>: the truth test is there
  for a descriptor without a confirmation time (null), and the time 0 is falsy as well.
  A descriptor confirmed at time 0 lies in the range from -1 to 1 and is not returned.
\<close>

theorem date_range_misses_epoch_descriptor:
  "discover_signatures (history_client [desc_epoch]) (Some 100) None None (Some (- 1)) (Some 1)
     = Inr []
   \<and> filter (confirmed_within (- 1) 1) [desc_epoch] = [desc_epoch]"
proof -
  have "date_range_scan (history_client [desc_epoch]) (- 1) 1 None 0 [] = Inr []"
    by (subst date_range_scan.simps)
       (simp add: history_client_def after_cursor_def page_unusable_def batch_of_def
          predates_def time_in_range_def desc_epoch_def)
  then show ?thesis
    by (simp add: discover_signatures_def confirmed_within_def desc_epoch_def)
qed

section \<open>Properties of the notification formatter\<close>

text \<open>
  The position the formatter looks up is the first one at which the account keys hold
  the address, and none when they do not hold it.
\<close>

lemma first_index_first_occurrence:
  "i < length keys \<Longrightarrow> keys ! i = JStr wallet \<Longrightarrow> \<forall>j<i. keys ! j \<noteq> JStr wallet \<Longrightarrow>
   first_index keys wallet n = Some (n + i)"
proof (induction keys arbitrary: i n)
  case Nil
  then show ?case by simp
next
  case (Cons k keys)
  show ?case
  proof (cases i)
    case 0
    then show ?thesis using Cons.prems by simp
  next
    case (Suc m)
    have "(k # keys) ! 0 \<noteq> JStr wallet" using Cons.prems(3) Suc by blast
    then have k: "k \<noteq> JStr wallet" by simp
    have "first_index keys wallet (Suc n) = Some (Suc n + m)"
    proof (rule Cons.IH)
      show "m < length keys" using Cons.prems(1) Suc by simp
      show "keys ! m = JStr wallet" using Cons.prems(2) Suc by simp
      show "\<forall>j<m. keys ! j \<noteq> JStr wallet"
      proof (intro allI impI)
        fix j assume "j < m"
        then have "Suc j < i" using Suc by simp
        then have "(k # keys) ! Suc j \<noteq> JStr wallet" using Cons.prems(3) by blast
        then show "keys ! j \<noteq> JStr wallet" by simp
      qed
    qed
    then show ?thesis using k Suc by simp
  qed
qed

lemma first_index_absent:
  "JStr wallet \<notin> set keys \<Longrightarrow> first_index keys wallet n = None"
  by (induction keys arbitrary: n) auto

lemma first_index_found:
  "first_index keys wallet n = Some k \<Longrightarrow>
   n \<le> k \<and> k - n < length keys \<and> keys ! (k - n) = JStr wallet
     \<and> (\<forall>j<k - n. keys ! j \<noteq> JStr wallet)"
proof (induction keys arbitrary: n)
  case Nil
  then show ?case by simp
next
  case (Cons a keys)
  show ?case
  proof (cases "a = JStr wallet")
    case True
    then show ?thesis using Cons.prems by simp
  next
    case False
    then have r: "first_index keys wallet (Suc n) = Some k" using Cons.prems by simp
    have ih: "Suc n \<le> k \<and> k - Suc n < length keys \<and> keys ! (k - Suc n) = JStr wallet
        \<and> (\<forall>j<k - Suc n. keys ! j \<noteq> JStr wallet)"
      using r by (rule Cons.IH)
    then have "Suc n \<le> k" by simp
    then have e: "k - n = Suc (k - Suc n)" by arith
    have "\<forall>j<k - n. (a # keys) ! j \<noteq> JStr wallet"
    proof (intro allI impI)
      fix j assume j: "j < k - n"
      show "(a # keys) ! j \<noteq> JStr wallet"
      proof (cases j)
        case 0
        then show ?thesis using False by simp
      next
        case (Suc m)
        then have "m < k - Suc n" using j e by simp
        then show ?thesis using ih Suc by simp
      qed
    qed
    then show ?thesis using ih e by simp
  qed
qed

lemma sol_change_of_balances:
  assumes "dict_get txr ''message'' (JDict []) = JDict msg"
    and "dict_get msg ''accountKeys'' (JList []) = JList keys"
    and "first_index keys wallet 0 = Some i"
    and "map_of meta ''preBalances'' = Some (JList pre)" "i < length pre" "pre ! i = JInt a"
    and "map_of meta ''postBalances'' = Some (JList post)" "i < length post" "post ! i = JInt b"
    and "round_double (of_int (b - a) / 1000000000) = Finite q"
  shows "sol_balance_change (JDict txr) meta wallet = Inr (Finite q)"
  using assms by (simp add: sol_balance_change_def py_sub_def)

lemma format_sol_only:
  assumes sg: "map_of tx_info ''signature'' = Some sg"
    and tx: "dict_get tx_info ''transaction'' (JDict []) = JDict txr" "txr \<noteq> []"
    and meta: "dict_get tx_info ''meta'' (JDict []) = JDict meta" "meta \<noteq> []"
    and err: "\<not> truthy (dict_get meta ''err'' JNull)"
    and sol: "sol_balance_change (JDict txr) meta wallet = Inr change" "float_nonzero change"
    and tok: "dict_get meta ''preTokenBalances'' (JList []) = JList []"
      "dict_get meta ''postTokenBalances'' (JList []) = JList []"
  shows "format_transaction_notification py_float prices tx_info wallet =
     Inr (Some \<lparr>note_wallet_head = take 4 wallet,
                 note_wallet_tail = drop (length wallet - 4) wallet,
                 note_lines = [\<lparr>line_direction = direction_of change,
                                line_amount = float_abs change,
                                line_symbol = JStr ''SOL''\<rparr>],
                 note_signature = sg\<rparr>)"
  using assms by (simp add: format_transaction_notification_def Let_def)

text \<open>
  Claim C9. Take a transaction info that carries its signature and has no error, in which
  the monitored address stands at position \<open>i\<close> of the account keys and at no earlier
  position, and whose lamport balance for that account, the entries at position \<open>i\<close> of
  preBalances and postBalances, goes from 10,000,000,000 to 9,000,000,000, with no token
  balances. The formatter computes the native change (post - pre) / 10^9 = -1.0 and
  returns a notification with the single line "sent 1 SOL", the label of the negative
  direction.
\<close>

theorem lamport_drop_is_reported_as_sent:
  assumes sg: "map_of tx_info ''signature'' = Some sg"
    and tx: "dict_get tx_info ''transaction'' (JDict []) = JDict txr"
    and msg: "dict_get txr ''message'' (JDict []) = JDict msg"
    and keys: "dict_get msg ''accountKeys'' (JList []) = JList keys"
    and pos: "i < length keys" "keys ! i = JStr wallet" "\<forall>j<i. keys ! j \<noteq> JStr wallet"
    and meta: "dict_get tx_info ''meta'' (JDict []) = JDict meta"
    and err: "\<not> truthy (dict_get meta ''err'' JNull)"
    and pre: "map_of meta ''preBalances'' = Some (JList pre)"
      "i < length pre" "pre ! i = JInt 10000000000"
    and post: "map_of meta ''postBalances'' = Some (JList post)"
      "i < length post" "post ! i = JInt 9000000000"
    and tok: "dict_get meta ''preTokenBalances'' (JList []) = JList []"
      "dict_get meta ''postTokenBalances'' (JList []) = JList []"
  shows "sol_balance_change (JDict txr) meta wallet = Inr (Finite (- 1))
     \<and> format_transaction_notification py_float prices tx_info wallet =
         Inr (Some \<lparr>note_wallet_head = take 4 wallet,
                     note_wallet_tail = drop (length wallet - 4) wallet,
                     note_lines = [\<lparr>line_direction = Sent, line_amount = Finite 1,
                                    line_symbol = JStr ''SOL''\<rparr>],
                     note_signature = sg\<rparr>)"
proof -
  have idx: "first_index keys wallet 0 = Some i"
    using first_index_first_occurrence[OF pos, of 0] by simp
  have k: "keys \<noteq> []" using pos(1) by auto
  have m: "msg \<noteq> []" using keys k by (auto simp: dict_get_def)
  have t: "txr \<noteq> []" using msg m by (auto simp: dict_get_def)
  have e: "meta \<noteq> []" using pre(1) by auto
  have "round_double (of_int (9000000000 - 10000000000) / 1000000000) = Finite (- 1)"
    by (simp add: round_double_minus_one)
  then have c: "sol_balance_change (JDict txr) meta wallet = Inr (Finite (- 1))"
    by (rule sol_change_of_balances[OF msg keys idx pre post])
  have "format_transaction_notification py_float prices tx_info wallet =
     Inr (Some \<lparr>note_wallet_head = take 4 wallet,
                 note_wallet_tail = drop (length wallet - 4) wallet,
                 note_lines = [\<lparr>line_direction = direction_of (Finite (- 1)),
                                line_amount = float_abs (Finite (- 1)),
                                line_symbol = JStr ''SOL''\<rparr>],
                 note_signature = sg\<rparr>)"
    by (rule format_sol_only[OF sg tx t meta e err c _ tok]) simp
  then show ?thesis using c by (simp add: direction_of_def)
qed

theorem lamport_drop_is_reported_as_sent_witness:
  "format_transaction_notification sample_float no_prices sample_tx_info_sol ''my_wallet'' =
       Inr (Some \<lparr>note_wallet_head = ''my_w'', note_wallet_tail = ''llet'',
                   note_lines = [\<lparr>line_direction = Sent, line_amount = Finite 1,
                                  line_symbol = JStr ''SOL''\<rparr>],
                   note_signature = JStr ''sol_sig_123''\<rparr>)
   \<and> sol_balance_change
      (JDict [(''message'', JDict [(''accountKeys'', JList [JStr ''other_wallet'', JStr ''my_wallet''])])])
      [(''err'', JNull),
       (''preBalances'', JList [JInt 5000000000, JInt 10000000000]),
       (''postBalances'', JList [JInt 6000000000, JInt 9000000000]),
       (''preTokenBalances'', JList []),
       (''postTokenBalances'', JList [])] ''my_wallet'' = Inr (Finite (- 1))
   \<and> format_transaction_notification sample_float no_prices sample_tx_info_sol_second ''my_wallet'' =
       Inr (Some \<lparr>note_wallet_head = ''my_w'', note_wallet_tail = ''llet'',
                   note_lines = [\<lparr>line_direction = Sent, line_amount = Finite 1,
                                  line_symbol = JStr ''SOL''\<rparr>],
                   note_signature = JStr ''sol_sig_123''\<rparr>)"
  using lamport_drop_is_reported_as_sent[of sample_tx_info_sol "JStr ''sol_sig_123''"
      "[(''message'', JDict [(''accountKeys'', JList [JStr ''my_wallet'', JStr ''other_wallet''])])]"
      "[(''accountKeys'', JList [JStr ''my_wallet'', JStr ''other_wallet''])]"
      "[JStr ''my_wallet'', JStr ''other_wallet'']" 0 "''my_wallet''"
      "[(''err'', JNull),
       (''preBalances'', JList [JInt 10000000000, JInt 5000000000]),
       (''postBalances'', JList [JInt 9000000000, JInt 6000000000]),
       (''preTokenBalances'', JList []),
       (''postTokenBalances'', JList [])]"
      "[JInt 10000000000, JInt 5000000000]" "[JInt 9000000000, JInt 6000000000]"
      sample_float no_prices]
    lamport_drop_is_reported_as_sent[of sample_tx_info_sol_second "JStr ''sol_sig_123''"
      "[(''message'', JDict [(''accountKeys'', JList [JStr ''other_wallet'', JStr ''my_wallet''])])]"
      "[(''accountKeys'', JList [JStr ''other_wallet'', JStr ''my_wallet''])]"
      "[JStr ''other_wallet'', JStr ''my_wallet'']" 1 "''my_wallet''"
      "[(''err'', JNull),
       (''preBalances'', JList [JInt 5000000000, JInt 10000000000]),
       (''postBalances'', JList [JInt 6000000000, JInt 9000000000]),
       (''preTokenBalances'', JList []),
       (''postTokenBalances'', JList [])]"
      "[JInt 5000000000, JInt 10000000000]" "[JInt 6000000000, JInt 9000000000]"
      sample_float no_prices]
  by (simp add: sample_tx_info_sol_def sample_tx_info_sol_second_def dict_get_def)

text \<open>
  The other direction on the same example: the second account of the repository's test
  transaction goes from 5,000,000,000 to 6,000,000,000 lamports, and its notification
  carries the label "received".
\<close>

lemma lamport_rise_is_reported_as_received:
  "format_transaction_notification sample_float no_prices sample_tx_info_sol ''other_wallet'' =
       Inr (Some \<lparr>note_wallet_head = ''othe'', note_wallet_tail = ''llet'',
                   note_lines = [\<lparr>line_direction = Received, line_amount = Finite 1,
                                  line_symbol = JStr ''SOL''\<rparr>],
                   note_signature = JStr ''sol_sig_123''\<rparr>)"
  by (simp add: format_transaction_notification_def sample_tx_info_sol_def dict_get_def Let_def
      sol_balance_change_def py_sub_def round_double_one direction_of_def)

lemma float_sub_self: "\<not> float_nonzero (float_sub x x)"
  by (cases x) (simp_all add: round_double_zero)

lemma balances_by_mint_owned_only:
  "\<forall>b\<in>set xs. is_dict b \<Longrightarrow>
   balances_by_mint wallet xs d = balances_by_mint wallet (filter (owned_by wallet) xs) d"
proof (induction xs arbitrary: d)
  case Nil
  then show ?case by simp
next
  case (Cons b xs)
  then obtain kvs where b: "b = JDict kvs" by (cases b) simp_all
  have ih: "\<And>d. balances_by_mint wallet xs d = balances_by_mint wallet (filter (owned_by wallet) xs) d"
    using Cons by simp
  show ?case
  proof (cases "owned_by wallet (JDict kvs)")
    case True
    then have o: "dict_get kvs ''owner'' JNull = JStr wallet" by (simp add: owned_by_def)
    have "balances_by_mint wallet (JDict kvs # xs) d =
        balances_by_mint wallet (JDict kvs # filter (owned_by wallet) xs) d"
      using o ih by (simp split: option.splits)
    then show ?thesis using True b by simp
  next
    case False
    then have "dict_get kvs ''owner'' JNull \<noteq> JStr wallet" by (simp add: owned_by_def)
    then have "balances_by_mint wallet (JDict kvs # xs) d = balances_by_mint wallet xs d"
      by simp
    then show ?thesis using False b ih by simp
  qed
qed

lemma balances_by_mint_values:
  "\<forall>b\<in>set xs. owned_by wallet b \<and> wf_entry py_float b \<Longrightarrow>
   \<exists>d'. balances_by_mint wallet xs d = Inr d' \<and> snd ` set d' \<subseteq> snd ` set d \<union> set xs"
proof (induction xs arbitrary: d)
  case Nil
  then show ?case by simp
next
  case (Cons b xs)
  then obtain kvs m where b: "b = JDict kvs" "map_of kvs ''mint'' = Some (JStr m)"
    by (auto simp: wf_entry_def)
  have o: "py_get b ''owner'' JNull = Inr (JStr wallet)"
    using Cons.prems by (simp add: owned_by_def)
  have step: "balances_by_mint wallet (b # xs) d = balances_by_mint wallet xs (dict_put d (JStr m) b)"
    using b o by (simp add: dict_key_def)
  obtain d' where d': "balances_by_mint wallet xs (dict_put d (JStr m) b) = Inr d'"
    "snd ` set d' \<subseteq> snd ` set (dict_put d (JStr m) b) \<union> set xs"
    using Cons.IH[of "dict_put d (JStr m) b"] Cons.prems by auto
  have p: "snd ` set (dict_put d (JStr m) b) \<subseteq> snd ` set d \<union> {b}"
    by (auto simp: dict_put_def split: if_splits)
  have "snd ` set d' \<subseteq> snd ` set d \<union> set (b # xs)"
  proof
    fix v assume "v \<in> snd ` set d'"
    then have "v \<in> snd ` set (dict_put d (JStr m) b) \<or> v \<in> set xs" using d'(2) by blast
    then have "v \<in> snd ` set d \<or> v = b \<or> v \<in> set xs" using p by blast
    then show "v \<in> snd ` set d \<union> set (b # xs)" by auto
  qed
  then show ?case using step d'(1) by simp
qed

lemma token_changes_loop_same:
  "\<forall>mint\<in>set mints. \<exists>x. token_amount py_float d mint = Inr x \<Longrightarrow>
   token_changes_loop py_float d d mints acc = Inr acc"
proof (induction mints arbitrary: acc)
  case Nil
  then show ?case by simp
next
  case (Cons mint mints)
  then obtain x where x: "token_amount py_float d mint = Inr x" by auto
  have "token_changes_loop py_float d d mints acc = Inr acc"
    using Cons by simp
  then show ?case using x by (simp add: float_sub_self)
qed

lemma token_amount_of_key:
  assumes "\<forall>b\<in>snd ` set d. wf_entry py_float b" "mint \<in> set (map fst d)"
  shows "\<exists>x. token_amount py_float d mint = Inr x"
proof -
  have "map_of d mint \<noteq> None"
    using assms(2) by (simp add: map_of_eq_None_iff)
  then obtain b where b: "map_of d mint = Some b" by blast
  then have "(mint, b) \<in> set d" by (rule map_of_SomeD)
  then have "b \<in> snd ` set d" by (rule image_eqI[rotated]) simp
  then have "wf_entry py_float b" using assms(1) by blast
  then obtain x where "entry_amount py_float b = Inr x" unfolding wf_entry_def by blast
  then show ?thesis using b by (simp add: token_amount_def)
qed

lemma no_token_changes:
  assumes "\<forall>b\<in>set pre. is_dict b" "\<forall>b\<in>set post. is_dict b"
    and "filter (owned_by wallet) pre = filter (owned_by wallet) post"
    and "\<forall>b\<in>set (filter (owned_by wallet) pre). wf_entry py_float b"
  shows "\<exists>d. balances_by_mint wallet pre [] = Inr d \<and> balances_by_mint wallet post [] = Inr d
     \<and> token_changes_loop py_float d d (remdups (map fst d @ map fst d)) [] = Inr []"
proof -
  define F where "F = filter (owned_by wallet) pre"
  have "\<forall>b\<in>set F. owned_by wallet b \<and> wf_entry py_float b"
    using assms(4) unfolding F_def by simp
  then have "\<exists>d'. balances_by_mint wallet F [] = Inr d' \<and> snd ` set d' \<subseteq> set F"
    using balances_by_mint_values[of F wallet py_float "[]"] by simp
  then obtain d where d: "balances_by_mint wallet F [] = Inr d"
    and v: "snd ` set d \<subseteq> set F"
    by blast
  have 1: "balances_by_mint wallet pre [] = Inr d"
    using balances_by_mint_owned_only[OF assms(1), of wallet "[]"] d by (simp add: F_def)
  have 2: "balances_by_mint wallet post [] = Inr d"
    using balances_by_mint_owned_only[OF assms(2), of wallet "[]"] d assms(3) by (simp add: F_def)
  have w: "\<forall>b\<in>snd ` set d. wf_entry py_float b"
  proof
    fix b assume "b \<in> snd ` set d"
    then have "b \<in> set F" using v by auto
    then show "wf_entry py_float b" using assms(4) unfolding F_def by blast
  qed
  have "\<forall>mint\<in>set (remdups (map fst d @ map fst d)). \<exists>x. token_amount py_float d mint = Inr x"
  proof
    fix mint assume "mint \<in> set (remdups (map fst d @ map fst d))"
    then have "mint \<in> set (map fst d)" by simp
    then show "\<exists>x. token_amount py_float d mint = Inr x"
      using w by (rule token_amount_of_key[rotated])
  qed
  then have 3: "token_changes_loop py_float d d (remdups (map fst d @ map fst d)) [] = Inr []"
    by (rule token_changes_loop_same)
  from 1 2 3 show ?thesis by blast
qed


lemma sol_change_zero:
  assumes "dict_get txr ''message'' (JDict []) = JDict msg"
    and "dict_get msg ''accountKeys'' (JList []) = JList keys"
    and "first_index keys wallet 0 = None
       \<or> (\<exists>i pre post a. first_index keys wallet 0 = Some i
             \<and> map_of meta ''preBalances'' = Some (JList pre)
             \<and> map_of meta ''postBalances'' = Some (JList post)
             \<and> i < length pre \<and> i < length post
             \<and> pre ! i = JInt a \<and> post ! i = JInt a)"
  shows "sol_balance_change (JDict txr) meta wallet = Inr (Finite 0)"
  using assms by (auto simp: sol_balance_change_def py_sub_def round_double_zero)

text \<open>
  Claim C8. Take a transaction info that carries its signature, whose transaction,
  message and meta members are dictionaries, whose account keys and token-balance lists
  are lists, and whose token-balance entries are dictionaries, those of the monitored
  address with a mint and an amount that \<^verbatim>\<open>float\<close> converts. When the address is not
  among the account keys or its lamport balance before and after is the same integer, and
  the pre- and post-token-balance entries owned by the address are identical, the
  formatter returns the empty string: no notification, whatever the balances of other
  owners do.
\<close>

theorem unchanged_balances_give_no_notification:
  assumes sg: "map_of tx_info ''signature'' = Some sg"
    and tx: "dict_get tx_info ''transaction'' (JDict []) = JDict txr"
    and msg: "dict_get txr ''message'' (JDict []) = JDict msg"
    and keys: "dict_get msg ''accountKeys'' (JList []) = JList keys"
    and meta: "dict_get tx_info ''meta'' (JDict []) = JDict meta"
    and native: "first_index keys wallet 0 = None
       \<or> (\<exists>i pre post a. first_index keys wallet 0 = Some i
             \<and> map_of meta ''preBalances'' = Some (JList pre)
             \<and> map_of meta ''postBalances'' = Some (JList post)
             \<and> i < length pre \<and> i < length post
             \<and> pre ! i = JInt a \<and> post ! i = JInt a)"
    and pre: "dict_get meta ''preTokenBalances'' (JList []) = JList pre_tb"
    and post: "dict_get meta ''postTokenBalances'' (JList []) = JList post_tb"
    and dicts: "\<forall>b\<in>set (pre_tb @ post_tb). is_dict b"
    and same: "filter (owned_by wallet) pre_tb = filter (owned_by wallet) post_tb"
    and wf: "\<forall>b\<in>set (filter (owned_by wallet) pre_tb). wf_entry py_float b"
  shows "format_transaction_notification py_float get_token_prices tx_info wallet = Inr None"
proof (cases "txr = [] \<or> meta = [] \<or> truthy (dict_get meta ''err'' JNull)")
  case True
  then show ?thesis
    using sg tx meta by (auto simp: format_transaction_notification_def Let_def)
next
  case False
  have c: "sol_balance_change (JDict txr) meta wallet = Inr (Finite 0)"
    using msg keys native by (rule sol_change_zero)
  have "\<forall>b\<in>set pre_tb. is_dict b" "\<forall>b\<in>set post_tb. is_dict b"
    using dicts by simp_all
  then obtain d where d: "balances_by_mint wallet pre_tb [] = Inr d"
    "balances_by_mint wallet post_tb [] = Inr d"
    "token_changes_loop py_float d d (remdups (map fst d @ map fst d)) [] = Inr []"
    using no_token_changes[OF _ _ same wf] by blast
  show ?thesis
    using False sg tx meta c pre post d
    by (simp add: format_transaction_notification_def Let_def)
qed

lemma token_entry_owner:
  "owned_by w (token_entry m o' a) = (o' = w)"
  by (simp add: owned_by_def token_entry_def dict_get_def)

theorem unchanged_balances_give_no_notification_witness:
  "format_transaction_notification sample_float no_prices sample_tx_info_no_change ''my_wallet''
     = Inr None"
proof (rule unchanged_balances_give_no_notification[where
      sg = "JStr ''token_sig_456''" and keys = "[JStr ''my_wallet'']"
      and pre_tb = "[token_entry ''USDC_mint'' ''my_wallet'' ''100.0'',
                     token_entry ''USDC_mint'' ''other_wallet'' ''100.0'']"
      and post_tb = "[token_entry ''USDC_mint'' ''my_wallet'' ''100.0'',
                      token_entry ''USDC_mint'' ''other_wallet'' ''50.0'']"])
  show "map_of sample_tx_info_no_change ''signature'' = Some (JStr ''token_sig_456'')"
    by (simp add: sample_tx_info_no_change_def)
  show "dict_get sample_tx_info_no_change ''transaction'' (JDict []) =
      JDict [(''message'', JDict [(''accountKeys'', JList [JStr ''my_wallet''])])]"
    by (simp add: sample_tx_info_no_change_def dict_get_def)
  show "dict_get [(''message'', JDict [(''accountKeys'', JList [JStr ''my_wallet''])])]
      ''message'' (JDict []) = JDict [(''accountKeys'', JList [JStr ''my_wallet''])]"
    by (simp add: dict_get_def)
  show "dict_get [(''accountKeys'', JList [JStr ''my_wallet''])] ''accountKeys'' (JList []) =
      JList [JStr ''my_wallet'']"
    by (simp add: dict_get_def)
  show "dict_get sample_tx_info_no_change ''meta'' (JDict []) =
      JDict [(''err'', JNull),
             (''preBalances'', JList [JInt 10000000000]),
             (''postBalances'', JList [JInt 10000000000]),
             (''preTokenBalances'',
                JList [token_entry ''USDC_mint'' ''my_wallet'' ''100.0'',
                       token_entry ''USDC_mint'' ''other_wallet'' ''100.0'']),
             (''postTokenBalances'',
                JList [token_entry ''USDC_mint'' ''my_wallet'' ''100.0'',
                       token_entry ''USDC_mint'' ''other_wallet'' ''50.0''])]"
    by (simp add: sample_tx_info_no_change_def dict_get_def)
  show "first_index [JStr ''my_wallet''] ''my_wallet'' 0 = None
       \<or> (\<exists>i pre post a. first_index [JStr ''my_wallet''] ''my_wallet'' 0 = Some i
             \<and> map_of [(''err'', JNull),
             (''preBalances'', JList [JInt 10000000000]),
             (''postBalances'', JList [JInt 10000000000]),
             (''preTokenBalances'',
                JList [token_entry ''USDC_mint'' ''my_wallet'' ''100.0'',
                       token_entry ''USDC_mint'' ''other_wallet'' ''100.0'']),
             (''postTokenBalances'',
                JList [token_entry ''USDC_mint'' ''my_wallet'' ''100.0'',
                       token_entry ''USDC_mint'' ''other_wallet'' ''50.0''])] ''preBalances'' = Some (JList pre)
             \<and> map_of [(''err'', JNull),
             (''preBalances'', JList [JInt 10000000000]),
             (''postBalances'', JList [JInt 10000000000]),
             (''preTokenBalances'',
                JList [token_entry ''USDC_mint'' ''my_wallet'' ''100.0'',
                       token_entry ''USDC_mint'' ''other_wallet'' ''100.0'']),
             (''postTokenBalances'',
                JList [token_entry ''USDC_mint'' ''my_wallet'' ''100.0'',
                       token_entry ''USDC_mint'' ''other_wallet'' ''50.0''])] ''postBalances'' = Some (JList post)
             \<and> i < length pre \<and> i < length post
             \<and> pre ! i = JInt a \<and> post ! i = JInt a)"
    by simp
  show "dict_get [(''err'', JNull),
             (''preBalances'', JList [JInt 10000000000]),
             (''postBalances'', JList [JInt 10000000000]),
             (''preTokenBalances'',
                JList [token_entry ''USDC_mint'' ''my_wallet'' ''100.0'',
                       token_entry ''USDC_mint'' ''other_wallet'' ''100.0'']),
             (''postTokenBalances'',
                JList [token_entry ''USDC_mint'' ''my_wallet'' ''100.0'',
                       token_entry ''USDC_mint'' ''other_wallet'' ''50.0''])] ''preTokenBalances'' (JList []) =
        JList [token_entry ''USDC_mint'' ''my_wallet'' ''100.0'',
               token_entry ''USDC_mint'' ''other_wallet'' ''100.0'']"
    by (simp add: dict_get_def)
  show "dict_get [(''err'', JNull),
             (''preBalances'', JList [JInt 10000000000]),
             (''postBalances'', JList [JInt 10000000000]),
             (''preTokenBalances'',
                JList [token_entry ''USDC_mint'' ''my_wallet'' ''100.0'',
                       token_entry ''USDC_mint'' ''other_wallet'' ''100.0'']),
             (''postTokenBalances'',
                JList [token_entry ''USDC_mint'' ''my_wallet'' ''100.0'',
                       token_entry ''USDC_mint'' ''other_wallet'' ''50.0''])] ''postTokenBalances'' (JList []) =
        JList [token_entry ''USDC_mint'' ''my_wallet'' ''100.0'',
               token_entry ''USDC_mint'' ''other_wallet'' ''50.0'']"
    by (simp add: dict_get_def)
  show "\<forall>b\<in>set ([token_entry ''USDC_mint'' ''my_wallet'' ''100.0'',
                     token_entry ''USDC_mint'' ''other_wallet'' ''100.0''] @
                    [token_entry ''USDC_mint'' ''my_wallet'' ''100.0'',
                     token_entry ''USDC_mint'' ''other_wallet'' ''50.0'']). is_dict b"
    by (simp add: token_entry_def)
  show "filter (owned_by ''my_wallet'') [token_entry ''USDC_mint'' ''my_wallet'' ''100.0'',
                     token_entry ''USDC_mint'' ''other_wallet'' ''100.0''] =
        filter (owned_by ''my_wallet'') [token_entry ''USDC_mint'' ''my_wallet'' ''100.0'',
                     token_entry ''USDC_mint'' ''other_wallet'' ''50.0'']"
    by (simp add: token_entry_owner)
  show "\<forall>b\<in>set (filter (owned_by ''my_wallet'') [token_entry ''USDC_mint'' ''my_wallet'' ''100.0'',
                     token_entry ''USDC_mint'' ''other_wallet'' ''100.0'']). wf_entry sample_float b"
    by (simp add: token_entry_owner)
       (simp add: wf_entry_def token_entry_def entry_amount_def dict_get_def sample_float_def)
qed

end
